theory Spec2Isabelle
  imports Main "HOL-Library.Sublist" "HOL-Library.Multiset"
begin

section \<open>Characters and strings of the script\<close>

text \<open>
  A Python \<open>str\<close> is modelled as a \<open>string\<close>. A \<open>char\<close> of code below 128 is the
  ASCII character of that code. A \<open>char\<close> of code 128 or more stands for some character
  outside ASCII: the script never computes with such a character, it only compares it
  with others and asks the interpreter's Unicode tables whether it is a decimal digit
  (and of which value), white space, or a word character; these answers are part of
  the environment below. So the model covers every text with at most 128 different
  characters outside ASCII.

  What the script does not decide itself is gathered in the environment:
  which file on disk a diagnostic's path names once joined to the project root; what
  \<open>re.sub\<close> makes of a replacement that contains a backslash (the template language of
  \<open>re\<close>: the expansion for a given match, or an error); the Unicode tables for the
  characters outside ASCII; and the interpreter's limit on the number of digits that
  \<open>int\<close> converts (\<open>sys.get_int_max_str_digits()\<close>, 4300 unless changed, 0 for none).
\<close>

text \<open>
  The exceptions: the \<open>IndexError\<close> of a list index out of range, and those raised by
  the surroundings (the operating system, the \<open>re\<close> module, \<open>int\<close>), each with the text
  that \<open>str(e)\<close> gives.
\<close>

datatype exn = IndexError | Raised string

record env =
  resolve :: "string \<Rightarrow> string"
  template :: "string \<Rightarrow> string \<Rightarrow> exn + string"
  decimal :: "char \<Rightarrow> nat option"
  space :: "char \<Rightarrow> bool"
  word :: "char \<Rightarrow> bool"
  int_max_str_digits :: nat

abbreviation LF :: char where "LF \<equiv> CHR 0x0A"
abbreviation CR :: char where "CR \<equiv> CHR 0x0D"

definition code :: "char \<Rightarrow> nat" where
  "code c = of_char c"

text \<open>
  The classes of the \<open>re\<close> module and of \<open>str.strip\<close>: \<open>\d\<close> is a decimal digit (in
  ASCII the ten digits), \<open>\s\<close> and what \<open>strip()\<close> removes is white space (in ASCII the
  codes 9 to 13 and 28 to 32), \<open>\w\<close> is a letter, a digit or the underscore (in ASCII
  \<open>[0-9A-Za-z_]\<close>), and \<open>.\<close> is everything but the line feed.
\<close>

definition is_ascii_digit :: "char \<Rightarrow> bool" where
  "is_ascii_digit c = (48 \<le> code c \<and> code c \<le> 57)"

definition is_digit :: "env \<Rightarrow> char \<Rightarrow> bool" where
  "is_digit env c = (is_ascii_digit c \<or> (128 \<le> code c \<and> decimal env c \<noteq> None))"

definition is_space :: "env \<Rightarrow> char \<Rightarrow> bool" where
  "is_space env c =
     (if code c < 128 then code c \<in> set [9, 10, 11, 12, 13, 28, 29, 30, 31, 32]
      else space env c)"

definition is_word :: "env \<Rightarrow> char \<Rightarrow> bool" where
  "is_word env c =
     (if code c < 128
      then (48 \<le> code c \<and> code c \<le> 57) \<or> (65 \<le> code c \<and> code c \<le> 90) \<or> code c = 95 \<or>
           (97 \<le> code c \<and> code c \<le> 122)
      else word env c)"

text \<open>
  \<open>int(s)\<close> on a run of decimal digits: the value in base ten of the digits' values,
  or a \<open>ValueError\<close> when the run is longer than the interpreter's limit. \<open>str(n)\<close> of
  an integer.
\<close>

definition digit_val :: "env \<Rightarrow> char \<Rightarrow> nat" where
  "digit_val env c =
     (if is_ascii_digit c then code c - 48
      else (case decimal env c of None \<Rightarrow> 0 | Some v \<Rightarrow> v))"

definition digit_char :: "nat \<Rightarrow> char" where
  "digit_char d = char_of (48 + d)"

definition numeral_value :: "env \<Rightarrow> string \<Rightarrow> nat" where
  "numeral_value env ds = foldl (\<lambda>n c. 10 * n + digit_val env c) 0 ds"

fun digits_of :: "nat \<Rightarrow> string" where
  "digits_of n = (if n < 10 then [digit_char n] else digits_of (n div 10) @ [digit_char (n mod 10)])"

declare digits_of.simps [simp del]

definition py_str :: "int \<Rightarrow> string" where
  "py_str i = (if i < 0 then CHR ''-'' # digits_of (nat (- i)) else digits_of (nat i))"

definition within_limit :: "env \<Rightarrow> string \<Rightarrow> bool" where
  "within_limit env ds = (int_max_str_digits env = 0 \<or> length ds \<le> int_max_str_digits env)"

definition py_int :: "env \<Rightarrow> string \<Rightarrow> exn + int" where
  "py_int env ds =
     (if within_limit env ds then Inr (int (numeral_value env ds))
      else Inl (Raised (''Exceeds the limit ('' @ digits_of (int_max_str_digits env) @
                        '' digits) for integer string conversion: value has '' @
                        digits_of (length ds) @
                        '' digits; use sys.set_int_max_str_digits() to increase the limit'')))"

text \<open>\<open>s.strip()\<close>, \<open>s.split(',')\<close> and \<open>', '.join(xs)\<close>.\<close>

definition strip :: "env \<Rightarrow> string \<Rightarrow> string" where
  "strip env s = rev (dropWhile (is_space env) (rev (dropWhile (is_space env) s)))"

fun split_comma :: "string \<Rightarrow> string list" where
  "split_comma [] = [[]]"
| "split_comma (c # cs) =
     (if c = CHR '','' then [] # split_comma cs
      else (case split_comma cs of [] \<Rightarrow> [[c]] | w # ws \<Rightarrow> (c # w) # ws))"

fun join_comma :: "string list \<Rightarrow> string" where
  "join_comma [] = []"
| "join_comma [x] = x"
| "join_comma (x # y # ys) = x @ '', '' @ join_comma (y # ys)"

text \<open>
  Reading a text file: universal newlines turn \<open>\r\n\<close> and a lone \<open>\r\<close> into
  \<open>\n\<close>; \<open>readlines\<close> (and iteration over the file) cuts after every \<open>\n\<close> and keeps it.
\<close>

fun universal_newlines :: "string \<Rightarrow> string" where
  "universal_newlines [] = []"
| "universal_newlines [c] = (if c = CR then [LF] else [c])"
| "universal_newlines (c # d # cs) =
     (if c = CR \<and> d = LF then LF # universal_newlines cs
      else if c = CR then LF # universal_newlines (d # cs)
      else c # universal_newlines (d # cs))"

fun cut_lines :: "string \<Rightarrow> string list" where
  "cut_lines [] = []"
| "cut_lines (c # cs) =
     (if c = LF then [LF] # cut_lines cs
      else (case cut_lines cs of [] \<Rightarrow> [[c]] | l # ls \<Rightarrow> (c # l) # ls))"

definition readlines :: "string \<Rightarrow> string list" where
  "readlines txt = cut_lines (universal_newlines txt)"

section \<open>The diagnostic parser\<close>

record diagnostic =
  e_file :: string
  e_line :: int
  e_col :: int
  e_code :: string
  e_message :: string

text \<open>
  \<open>re.match(r'(.*?)\((\d+),(\d+)\): error (TS\d+): (.*)', line)\<close>.
  Every \<open>\d+\<close> is followed by a character that is no digit, so it can only take the
  whole run of digits; \<open>(.*)\<close> takes the rest of the line up to its line feed.
  \<open>match_tail\<close> is the pattern from \<open>\(\<close> on, tried at one position; the lazy
  \<open>(.*?)\<close> tries it at the start and then after each further character that is no
  line feed, and the first position that succeeds is the match.
\<close>

definition lit :: "string \<Rightarrow> string \<Rightarrow> string option" where
  "lit p s = (if prefix p s then Some (drop (length p) s) else None)"

definition digits_run :: "env \<Rightarrow> string \<Rightarrow> (string \<times> string) option" where
  "digits_run env s =
     (if takeWhile (is_digit env) s = [] then None
      else Some (takeWhile (is_digit env) s, dropWhile (is_digit env) s))"

definition match_tail :: "env \<Rightarrow> string \<Rightarrow> (string \<times> string \<times> string \<times> string) option" where
  "match_tail env s =
     (case lit ''('' s of None \<Rightarrow> None | Some s1 \<Rightarrow>
      case digits_run env s1 of None \<Rightarrow> None | Some (line_num, s2) \<Rightarrow>
      case lit '','' s2 of None \<Rightarrow> None | Some s3 \<Rightarrow>
      case digits_run env s3 of None \<Rightarrow> None | Some (col_num, s4) \<Rightarrow>
      case lit ''): error TS'' s4 of None \<Rightarrow> None | Some s5 \<Rightarrow>
      case digits_run env s5 of None \<Rightarrow> None | Some (ts_num, s6) \<Rightarrow>
      case lit '': '' s6 of None \<Rightarrow> None | Some s7 \<Rightarrow>
        Some (line_num, col_num, ''TS'' @ ts_num, takeWhile (\<lambda>c. c \<noteq> LF) s7))"

fun match_error :: "env \<Rightarrow> string \<Rightarrow> (string \<times> string \<times> string \<times> string \<times> string) option" where
  "match_error env [] = None"
| "match_error env (c # cs) =
     (case match_tail env (c # cs) of
        Some g \<Rightarrow> Some ([], g)
      | None \<Rightarrow>
          if c = LF then None
          else map_option (\<lambda>(filename, g). (c # filename, g)) (match_error env cs))"

text \<open>
  One line of the log: no record when the pattern does not match; otherwise the
  record, with \<open>int(line_num)\<close> and then \<open>int(col)\<close>, either of which may raise.
\<close>

definition parse_line :: "env \<Rightarrow> string \<Rightarrow> exn + diagnostic option" where
  "parse_line env l =
     (case match_error env l of
        None \<Rightarrow> Inr None
      | Some (filename, line_num, col_num, error_code, msg) \<Rightarrow>
          (case py_int env line_num of
             Inl e \<Rightarrow> Inl e
           | Inr n \<Rightarrow>
               (case py_int env col_num of
                  Inl e \<Rightarrow> Inl e
                | Inr k \<Rightarrow>
                    Inr (Some \<lparr>e_file = filename, e_line = n, e_col = k,
                               e_code = error_code, e_message = msg\<rparr>))))"

text \<open>
  \<open>parse_errors\<close> on the text of the log, once the log has been opened: one record for
  each line that matches, in the order of the lines; an exception raised at a line
  leaves the function, and no list is returned. (A log that cannot be opened ends the
  program before any file is touched.)
\<close>

fun parse_lines :: "env \<Rightarrow> string list \<Rightarrow> exn + diagnostic list" where
  "parse_lines env [] = Inr []"
| "parse_lines env (l # ls) =
     (case parse_line env l of
        Inl e \<Rightarrow> Inl e
      | Inr None \<Rightarrow> parse_lines env ls
      | Inr (Some d) \<Rightarrow> map_sum id ((#) d) (parse_lines env ls))"

definition parse_errors :: "env \<Rightarrow> string \<Rightarrow> exn + diagnostic list" where
  "parse_errors env log_text = parse_lines env (readlines log_text)"

text \<open>The line grammar, used to write a record back as a log line.\<close>

definition format_error :: "diagnostic \<Rightarrow> string" where
  "format_error d =
     e_file d @ ''('' @ py_str (e_line d) @ '','' @ py_str (e_col d) @ ''): error '' @
     e_code d @ '': '' @ e_message d"



section \<open>The unused-identifier fixer\<close>

subsection \<open>Collecting the entries of each file\<close>

record item =
  i_line :: int
  i_var :: string

abbreviation quote :: char where "quote \<equiv> CHR 0x27"
abbreviation backslash :: char where "backslash \<equiv> CHR 0x5C"

text \<open>
  \<open>re.search(r"'([^']+)' is declared but", message)\<close>, group 1 of the leftmost match:
  at a quote, \<open>[^']+\<close> runs to the next quote, which must open the literal text.
\<close>

fun search_declared :: "string \<Rightarrow> string option" where
  "search_declared [] = None"
| "search_declared (c # cs) =
     (if c = quote \<and> takeWhile (\<lambda>x. x \<noteq> quote) cs \<noteq> [] \<and>
         prefix (quote # '' is declared but'') (dropWhile (\<lambda>x. x \<noteq> quote) cs)
      then Some (takeWhile (\<lambda>x. x \<noteq> quote) cs)
      else search_declared cs)"

text \<open>
  \<open>files_to_fix\<close> is a \<open>defaultdict(list)\<close>: keys in the order of their first
  appearance, each with its entries in log order.
\<close>

fun append_item :: "string \<Rightarrow> item \<Rightarrow> (string \<times> item list) list \<Rightarrow> (string \<times> item list) list" where
  "append_item k v [] = [(k, [v])]"
| "append_item k v ((k', vs) # kvs) =
     (if k = k' then (k', vs @ [v]) # kvs else (k', vs) # append_item k v kvs)"

definition collect_error :: "(string \<times> item list) list \<Rightarrow> diagnostic \<Rightarrow> (string \<times> item list) list" where
  "collect_error d error =
     (if e_code error = ''TS6133'' then
        (case search_declared (e_message error) of
           Some var_name \<Rightarrow>
             append_item (e_file error) \<lparr>i_line = e_line error, i_var = var_name\<rparr> d
         | None \<Rightarrow> d)
      else d)"

definition files_to_fix :: "diagnostic list \<Rightarrow> (string \<times> item list) list" where
  "files_to_fix errors = foldl collect_error [] errors"

text \<open>
  \<open>unused_vars.sort(key=lambda x: x['line'], reverse=True)\<close>: a stable sort that
  keeps entries of equal line in their original order (reverse, sort ascending,
  reverse).
\<close>

definition sort_items :: "item list \<Rightarrow> item list" where
  "sort_items unused_vars = rev (sort_key i_line (rev unused_vars))"

subsection \<open>The patterns tried on a source line\<close>

text \<open>
  A replacement without backslash is literal; one with a backslash is handed to the
  template language of \<open>re\<close>.
\<close>

definition expand :: "env \<Rightarrow> string \<Rightarrow> string \<Rightarrow> exn + string" where
  "expand env repl matched =
     (if backslash \<in> set repl then template env repl matched else Inr repl)"

text \<open>
  \<open>\{([^}]+)\}\<close> tried just after a \<open>{\<close>: the characters up to the next \<open>}\<close>,
  at least one, and the text after that \<open>}\<close>.
\<close>

definition brace_group :: "string \<Rightarrow> (string \<times> string) option" where
  "brace_group cs =
     (if takeWhile (\<lambda>x. x \<noteq> CHR ''}'') cs = [] \<or> dropWhile (\<lambda>x. x \<noteq> CHR ''}'') cs = [] then None
      else Some (takeWhile (\<lambda>x. x \<noteq> CHR ''}'') cs, tl (dropWhile (\<lambda>x. x \<noteq> CHR ''}'') cs)))"

text \<open>\<open>re.search(r'\{([^}]+)\}', line)\<close>: group 1 of the leftmost match.\<close>

fun search_braces :: "string \<Rightarrow> string option" where
  "search_braces [] = None"
| "search_braces (c # cs) =
     (case (if c = CHR ''{'' then brace_group cs else None) of
        Some (g, rest) \<Rightarrow> Some g
      | None \<Rightarrow> search_braces cs)"

text \<open>
  \<open>re.sub(r'\{[^}]+\}', repl, line)\<close> is called without \<open>count\<close>: every match,
  from left to right and without overlap, is replaced.
\<close>

function sub_braces :: "(string \<Rightarrow> exn + string) \<Rightarrow> string \<Rightarrow> exn + string" where
  "sub_braces ex [] = Inr []"
| "sub_braces ex (c # cs) =
     (case (if c = CHR ''{'' then brace_group cs else None) of
        Some (g, rest) \<Rightarrow>
          (case ex (c # g @ ''}'') of
             Inl e \<Rightarrow> Inl e
           | Inr r \<Rightarrow> map_sum id ((@) r) (sub_braces ex rest))
      | None \<Rightarrow> map_sum id ((#) c) (sub_braces ex cs))"
  by pat_completeness auto
termination
proof (relation "measure (\<lambda>(ex, s). length s)")
  fix ex :: "string \<Rightarrow> exn + string" and c cs x2 g rest
  assume "(if c = CHR ''{'' then brace_group cs else None) = Some x2" "(g, rest) = x2"
  then have "rest = tl (dropWhile (\<lambda>x. x \<noteq> CHR ''}'') cs)"
    by (auto simp: brace_group_def split: if_splits)
  then have "length rest \<le> length cs"
    using length_dropWhile_le [of "\<lambda>x. x \<noteq> CHR ''}''" cs] by simp
  then show "((ex, rest), ex, c # cs) \<in> measure (\<lambda>(ex, s). length s)"
    by simp
qed simp_all

text \<open>
  \<open>\s+\<close> followed by the rest \<open>p\<close> of a pattern: one whitespace character, then
  either \<open>p\<close> or more whitespace.
\<close>

fun spaces_then :: "env \<Rightarrow> (string \<Rightarrow> bool) \<Rightarrow> string \<Rightarrow> bool" where
  "spaces_then env p [] = False"
| "spaces_then env p (c # cs) = (is_space env c \<and> (p cs \<or> spaces_then env p cs))"

text \<open>
  \<open>re.search(rf'import\s+{re.escape(var_name)}\s+from', line)\<close>, as a truth value:
  the pattern at one position, and at some position.
\<close>

definition default_import_at :: "env \<Rightarrow> string \<Rightarrow> string \<Rightarrow> bool" where
  "default_import_at env var_name s =
     (case lit ''import'' s of None \<Rightarrow> False | Some s1 \<Rightarrow>
        spaces_then env
          (\<lambda>s2. case lit var_name s2 of None \<Rightarrow> False | Some s3 \<Rightarrow>
             spaces_then env (prefix ''from'') s3)
          s1)"

fun search_default_import :: "env \<Rightarrow> string \<Rightarrow> string \<Rightarrow> bool" where
  "search_default_import env var_name [] = False"
| "search_default_import env var_name (c # cs) =
     (default_import_at env var_name (c # cs) \<or> search_default_import env var_name cs)"

text \<open>
  \<open>re.search(rf'\b(const|let|var)\s+({re.escape(var_name)})\b', line)\<close>, as a truth
  value. A \<open>\b\<close> holds where exactly one of the two neighbours is a word character
  (the ends of the string count as none); the search carries whether the character
  before the position is one.
\<close>

definition next_is_word :: "env \<Rightarrow> string \<Rightarrow> bool" where
  "next_is_word env s = (case s of [] \<Rightarrow> False | c # _ \<Rightarrow> is_word env c)"

definition declaration_at :: "env \<Rightarrow> string \<Rightarrow> string \<Rightarrow> bool" where
  "declaration_at env var_name s =
     list_ex
       (\<lambda>kw. case lit kw s of None \<Rightarrow> False | Some s1 \<Rightarrow>
          spaces_then env
            (\<lambda>s2. case lit var_name s2 of None \<Rightarrow> False | Some s3 \<Rightarrow>
               (var_name \<noteq> [] \<and> is_word env (last var_name)) \<noteq> next_is_word env s3)
            s1)
       [''const'', ''let'', ''var'']"

fun search_declaration_from :: "env \<Rightarrow> bool \<Rightarrow> string \<Rightarrow> string \<Rightarrow> bool" where
  "search_declaration_from env prev_word var_name [] = False"
| "search_declaration_from env prev_word var_name (c # cs) =
     ((\<not> prev_word \<and> declaration_at env var_name (c # cs)) \<or>
      search_declaration_from env (is_word env c) var_name cs)"

definition search_declaration :: "env \<Rightarrow> string \<Rightarrow> string \<Rightarrow> bool" where
  "search_declaration env var_name line = search_declaration_from env False var_name line"

subsection \<open>Editing one line\<close>

text \<open>
  What an entry does to the line it addresses: \<open>Replace\<close> is an assignment to
  \<open>lines[line_idx]\<close> (with \<open>modified = True\<close> and \<open>fixed_count += 1\<close>), \<open>Keep\<close> is
  falling through without any.
\<close>

datatype edit = Replace string | Keep

definition imports_of :: "env \<Rightarrow> string \<Rightarrow> string list" where
  "imports_of env g = map (strip env) (split_comma g)"

definition named_import :: "env \<Rightarrow> string \<Rightarrow> string \<Rightarrow> exn + edit" where
  "named_import env var_name line =
     (case search_braces line of
        None \<Rightarrow> Inr Keep
      | Some g \<Rightarrow>
          if var_name \<in> set (imports_of env g) then
            (if remove1 var_name (imports_of env g) \<noteq> [] then
               (case sub_braces
                       (expand env (''{ '' @ join_comma (remove1 var_name (imports_of env g)) @ '' }''))
                       line of
                  Inl e \<Rightarrow> Inl e
                | Inr new_line \<Rightarrow> Inr (Replace new_line))
             else Inr (Replace []))
          else Inr Keep)"

definition edit_line :: "env \<Rightarrow> string \<Rightarrow> string \<Rightarrow> exn + edit" where
  "edit_line env var_name line =
     (if sublist ''import'' line then
        (if CHR ''{'' \<in> set line \<and> CHR ''}'' \<in> set line then named_import env var_name line
         else if search_default_import env var_name line then Inr (Replace [])
         else Inr Keep)
      else if search_declaration env var_name line then
        (if CHR ''{'' \<in> set line \<or> CHR ''['' \<in> set line then Inr Keep
         else Inr (Replace (''// '' @ line)))
      else Inr Keep)"

subsection \<open>The edit pass over one file's buffer\<close>

record pass =
  lines :: "string list"
  modified :: bool
  fixed_count :: nat

text \<open>
  The position that a Python index denotes in a list: a negative index counts from
  the end, and an index outside the list raises \<open>IndexError\<close> (here \<open>None\<close>).
\<close>

definition slot :: "'a list \<Rightarrow> int \<Rightarrow> nat option" where
  "slot xs i =
     (if i < 0 then (if - i \<le> int (length xs) then Some (nat (int (length xs) + i)) else None)
      else (if i < int (length xs) then Some (nat i) else None))"

definition line_idx :: "item \<Rightarrow> int" where
  "line_idx it = i_line it - 1"

definition past_end :: "item \<Rightarrow> pass \<Rightarrow> bool" where
  "past_end it st = (line_idx it \<ge> int (length (lines st)))"

definition edit_item :: "env \<Rightarrow> item \<Rightarrow> pass \<Rightarrow> exn + pass" where
  "edit_item env it st =
     (if past_end it st then Inr st
      else
        (case slot (lines st) (line_idx it) of
           None \<Rightarrow> Inl IndexError
         | Some k \<Rightarrow>
             (case edit_line env (i_var it) (lines st ! k) of
                Inl e \<Rightarrow> Inl e
              | Inr Keep \<Rightarrow> Inr st
              | Inr (Replace new_line) \<Rightarrow>
                  Inr \<lparr>lines = (lines st)[k := new_line], modified = True,
                       fixed_count = fixed_count st + 1\<rparr>)))"

text \<open>
  The loop over the entries. An exception leaves the loop with the state reached so
  far: the count is a variable of the enclosing function and keeps its increments.
\<close>

fun edit_items :: "env \<Rightarrow> item list \<Rightarrow> pass \<Rightarrow> pass \<times> exn option" where
  "edit_items env [] st = (st, None)"
| "edit_items env (it # its) st =
     (case edit_item env it st of
        Inl e \<Rightarrow> (st, Some e)
      | Inr st' \<Rightarrow> edit_items env its st')"

subsection \<open>Files\<close>

text \<open>
  A file on disk: its text, and the exception that opening it for reading, or for
  writing, raises (if any). A failed write is taken to leave the file as it was; a
  write that succeeds puts the lines of the buffer one after the other, as
  \<open>writelines\<close> does (no translation of line ends on the POSIX system of the script's
  paths). The disk maps a resolved path to its file; \<open>None\<close> is a path that does
  not exist.
\<close>

record node =
  content :: string
  read_error :: "exn option"
  write_error :: "exn option"

record run =
  disk :: "string \<Rightarrow> node option"
  fixed :: nat
  printed :: "string list"
  written :: "string list"

definition exn_str :: "exn \<Rightarrow> string" where
  "exn_str e = (case e of IndexError \<Rightarrow> ''list index out of range'' | Raised s \<Rightarrow> s)"

definition error_fixing :: "string \<Rightarrow> exn \<Rightarrow> string" where
  "error_fixing filepath e = ''Error fixing '' @ filepath @ '': '' @ exn_str e"

text \<open>
  The body of the \<open>try\<close> for one file that exists: the run as it stands when the body
  ends, and the exception that ended it (if any). \<open>written\<close> records the paths that
  were opened for writing and written; \<open>fixed\<close> is the function's \<open>fixed_count\<close>,
  \<open>printed\<close> the lines sent to the console by the handler.
\<close>

definition process_file :: "env \<Rightarrow> run \<Rightarrow> string \<Rightarrow> node \<Rightarrow> item list \<Rightarrow> run \<times> exn option" where
  "process_file env r full_path nd unused_vars =
     (case read_error nd of
        Some e \<Rightarrow> (r, Some e)
      | None \<Rightarrow>
          (case edit_items env (sort_items unused_vars)
                  \<lparr>lines = readlines (content nd), modified = False, fixed_count = fixed r\<rparr> of
             (st, Some e) \<Rightarrow> (r\<lparr>fixed := fixed_count st\<rparr>, Some e)
           | (st, None) \<Rightarrow>
               if modified st then
                 (case write_error nd of
                    Some e \<Rightarrow> (r\<lparr>fixed := fixed_count st\<rparr>, Some e)
                  | None \<Rightarrow>
                      (r\<lparr>disk := (disk r)(full_path \<mapsto> nd\<lparr>content := concat (lines st)\<rparr>),
                         fixed := fixed_count st,
                         written := written r @ [full_path]\<rparr>, None))
               else (r\<lparr>fixed := fixed_count st\<rparr>, None)))"

text \<open>
  One round of the loop over \<open>files_to_fix.items()\<close>: a path that does not exist is
  passed over (\<open>exists()\<close> is taken to answer without raising); otherwise the body
  runs under the handler \<open>except Exception\<close>, which prints and goes on.
\<close>

definition fix_file :: "env \<Rightarrow> run \<Rightarrow> string \<times> item list \<Rightarrow> run" where
  "fix_file env r entry =
     (case disk r (resolve env (fst entry)) of
        None \<Rightarrow> r
      | Some nd \<Rightarrow>
          (case process_file env r (resolve env (fst entry)) nd (snd entry) of
             (r', Some e) \<Rightarrow> r'\<lparr>printed := printed r' @ [error_fixing (fst entry) e]\<rparr>
           | (r', None) \<Rightarrow> r'))"

definition fix_unused_imports :: "env \<Rightarrow> diagnostic list \<Rightarrow> (string \<Rightarrow> node option) \<Rightarrow> run" where
  "fix_unused_imports env errors d =
     foldl (fix_file env) \<lparr>disk = d, fixed = 0, printed = [], written = []\<rparr> (files_to_fix errors)"

text \<open>
  An environment for concrete runs: a path names itself, and a replacement with a
  backslash is refused. The only such replacement it is given below is
  \<open>{ \1 }\<close>, which \<open>re.sub\<close> refuses with this message, the pattern having no group.
  The runs use no character outside ASCII, and the limit of \<open>int\<close> is the default one.
\<close>

definition plain_env :: env where
  "plain_env =
     \<lparr>resolve = (\<lambda>p. p),
      template = (\<lambda>repl matched. Inl (Raised ''invalid group reference 1 at position 3'')),
      decimal = (\<lambda>c. None), space = (\<lambda>c. False), word = (\<lambda>c. False),
      int_max_str_digits = 4300\<rparr>"

text \<open>
  The same environment with two characters outside ASCII that are decimal digits: the
  codes 128 and 129 stand for the fullwidth digits one and two.
\<close>

definition fullwidth_env :: env where
  "fullwidth_env =
     plain_env\<lparr>decimal := (\<lambda>c. if c = CHR 0x80 then Some 1 else if c = CHR 0x81 then Some 2 else None)\<rparr>"

definition text_file :: "string \<Rightarrow> node" where
  "text_file txt = \<lparr>content = txt, read_error = None, write_error = None\<rparr>"

definition read_only_file :: "string \<Rightarrow> node" where
  "read_only_file txt =
     \<lparr>content = txt, read_error = None,
      write_error = Some (Raised ''[Errno 13] Permission denied'')\<rparr>"

definition unreadable_file :: "string \<Rightarrow> node" where
  "unreadable_file txt =
     \<lparr>content = txt, read_error = Some (Raised ''[Errno 13] Permission denied''),
      write_error = Some (Raised ''[Errno 13] Permission denied'')\<rparr>"

definition unused :: "string \<Rightarrow> string" where
  "unused var_name = quote # var_name @ quote # '' is declared but its value is never read.''"

section \<open>Properties\<close>

subsection \<open>Numerals\<close>









subsection \<open>The pieces of the line pattern\<close>





















subsection \<open>The round trip of a log line\<close>




text \<open>
  The round trip fails in the same way on a number written in decimal digits outside
  ASCII, which \<open>\d\<close> matches and \<open>int\<close> converts: with the codes 128 and 129 read as the
  fullwidth digits one and two (U+FF11, U+FF12), the line number is parsed to 12 and
  written back in ASCII digits.
\<close>

lemma digits_outside_ascii_not_reproduced:
  "parse_errors fullwidth_env (''src/a.ts('' @ [CHR 0x80, CHR 0x81] @ '',5): error TS1: m'' @ [LF])
     = Inr [\<lparr>e_file = ''src/a.ts'', e_line = 12, e_col = 5, e_code = ''TS1'',
             e_message = ''m''\<rparr>] \<and>
   format_error \<lparr>e_file = ''src/a.ts'', e_line = 12, e_col = 5, e_code = ''TS1'', e_message = ''m''\<rparr>
     = ''src/a.ts(12,5): error TS1: m'' \<and>
   format_error \<lparr>e_file = ''src/a.ts'', e_line = 12, e_col = 5, e_code = ''TS1'', e_message = ''m''\<rparr>
     \<noteq> ''src/a.ts('' @ [CHR 0x80, CHR 0x81] @ '',5): error TS1: m''"
  by code_simp

subsection \<open>Addressing a buffer line\<close>

lemma slot_middle: "slot (pre @ l # post) (int (length pre)) = Some (length pre)"
  by (simp add: slot_def)

lemma edit_item_at_line:
  assumes "lines st = pre @ l # post"
  shows "edit_item env \<lparr>i_line = int (length pre) + 1, i_var = v\<rparr> st =
     (case edit_line env v l of
        Inl e \<Rightarrow> Inl e
      | Inr Keep \<Rightarrow> Inr st
      | Inr (Replace new_line) \<Rightarrow>
          Inr \<lparr>lines = pre @ new_line # post, modified = True,
               fixed_count = fixed_count st + 1\<rparr>)"
  using assms
  by (simp add: edit_item_def past_end_def line_idx_def slot_middle split: sum.splits edit.splits)

lemma sort_items_single: "sort_items [it] = [it]"
  by (simp add: sort_items_def)

lemma unused_declared:
  assumes "quote \<notin> set v" "v \<noteq> []"
  shows "search_declared (unused v) = Some v"
proof -
  have all: "\<forall>x\<in>set v. x \<noteq> quote"
    using assms(1) by auto
  have tw: "takeWhile (\<lambda>x. x \<noteq> quote) (v @ quote # rest) = v" for rest
    using all by (simp add: takeWhile_tail)
  have dw: "dropWhile (\<lambda>x. x \<noteq> quote) (v @ quote # rest) = quote # rest" for rest
    using all by (simp add: dropWhile_append3)
  show ?thesis
    unfolding unused_def search_declared.simps tw dw using assms(2) by simp
qed

lemma files_to_fix_single:
  assumes "quote \<notin> set v" "v \<noteq> []"
  shows "files_to_fix [\<lparr>e_file = p, e_line = n, e_col = c, e_code = ''TS6133'', e_message = unused v\<rparr>]
         = [(p, [\<lparr>i_line = n, i_var = v\<rparr>])]"
  using assms by (simp add: files_to_fix_def collect_error_def unused_declared)

lemma fix_unused_imports_single:
  assumes "quote \<notin> set v" "v \<noteq> []"
  shows "fix_unused_imports env
           [\<lparr>e_file = p, e_line = n, e_col = c, e_code = ''TS6133'', e_message = unused v\<rparr>] d
         = fix_file env \<lparr>disk = d, fixed = 0, printed = [], written = []\<rparr>
             (p, [\<lparr>i_line = n, i_var = v\<rparr>])"
  using assms by (simp add: fix_unused_imports_def files_to_fix_single)



lemma run_on_single_file:
  assumes "quote \<notin> set v" "v \<noteq> []" "d (resolve env p) = Some nd" "read_error nd = None"
    "write_error nd = None"
    "edit_items env [\<lparr>i_line = n, i_var = v\<rparr>]
       \<lparr>lines = readlines (content nd), modified = False, fixed_count = 0\<rparr>
     = (\<lparr>lines = ls, modified = True, fixed_count = k\<rparr>, None)"
  shows "fix_unused_imports env
           [\<lparr>e_file = p, e_line = n, e_col = c, e_code = ''TS6133'', e_message = unused v\<rparr>] d
         = \<lparr>disk = d(resolve env p \<mapsto> nd\<lparr>content := concat ls\<rparr>), fixed = k, printed = [],
            written = [resolve env p]\<rparr>"
  using assms
  by (simp add: fix_unused_imports_single fix_file_def process_file_def sort_items_single)

lemma edit_line_destructuring:
  "edit_line env ''a'' ''const { a, b } = obj;'' = Inr Keep"
  "edit_line env ''a'' (''const { a, b } = obj;'' @ [LF]) = Inr Keep"
  by code_simp+

lemma edit_line_foo_bar:
  "edit_line env ''Foo'' ''import { Foo, Bar } from 'baz';''
     = Inr (Replace ''import { Bar } from 'baz';'')"
  "edit_line env ''Foo'' (''import { Foo, Bar } from 'baz';'' @ [LF])
     = Inr (Replace (''import { Bar } from 'baz';'' @ [LF]))"
  by code_simp+

subsection \<open>Concrete lines\<close>

text \<open>
  Claim C7. A buffer line \<open>const { a, b } = obj;\<close> (with or without its line feed)
  and an entry reporting \<open>a\<close> unused at that line: the entry leaves the whole pass
  state as it was, so the line is unchanged and nothing is counted; the run on that
  single TS6133 diagnostic writes nothing, prints nothing and returns the count 0.
\<close>

theorem destructuring_line_kept:
  assumes eol: "eol = [] \<or> eol = [LF]"
  shows "(lines st = pre @ (''const { a, b } = obj;'' @ eol) # post \<longrightarrow>
            edit_item env \<lparr>i_line = int (length pre) + 1, i_var = ''a''\<rparr> st = Inr st) \<and>
         (d (resolve env p) = Some nd \<and> read_error nd = None \<and>
          readlines (content nd) = pre @ (''const { a, b } = obj;'' @ eol) # post \<longrightarrow>
            fix_unused_imports env
              [\<lparr>e_file = p, e_line = int (length pre) + 1, e_col = c, e_code = ''TS6133'',
                e_message = unused ''a''\<rparr>] d
            = \<lparr>disk = d, fixed = 0, printed = [], written = []\<rparr>)"
proof -
  have keep: "edit_line env ''a'' (''const { a, b } = obj;'' @ eol) = Inr Keep"
    using eol edit_line_destructuring [of env] by auto
  have item: "edit_item env \<lparr>i_line = int (length pre) + 1, i_var = ''a''\<rparr> st = Inr st"
    if "lines st = pre @ (''const { a, b } = obj;'' @ eol) # post" for st
    unfolding edit_item_at_line [OF that] keep by simp
  show ?thesis
    by (auto simp: item fix_unused_imports_single fix_file_def process_file_def sort_items_single)
qed

theorem destructuring_line_kept_witness:
  "edit_item plain_env \<lparr>i_line = 2, i_var = ''a''\<rparr>
     \<lparr>lines = [''let x = 1;'' @ [LF], ''const { a, b } = obj;'' @ [LF]], modified = False,
      fixed_count = 0\<rparr>
   = Inr \<lparr>lines = [''let x = 1;'' @ [LF], ''const { a, b } = obj;'' @ [LF]], modified = False,
          fixed_count = 0\<rparr> \<and>
   fix_unused_imports plain_env
     [\<lparr>e_file = ''src/a.ts'', e_line = 2, e_col = 9, e_code = ''TS6133'',
       e_message = unused ''a''\<rparr>]
     [''src/a.ts'' \<mapsto> text_file (''let x = 1;'' @ [LF] @ ''const { a, b } = obj;'' @ [LF])]
   = \<lparr>disk = [''src/a.ts'' \<mapsto> text_file (''let x = 1;'' @ [LF] @ ''const { a, b } = obj;'' @ [LF])],
      fixed = 0, printed = [], written = []\<rparr>"
  using destructuring_line_kept
    [where eol = "[LF]" and pre = "[''let x = 1;'' @ [LF]]" and post = "[]" and env = plain_env
       and p = "''src/a.ts''" and c = 9
       and nd = "text_file (''let x = 1;'' @ [LF] @ ''const { a, b } = obj;'' @ [LF])"
       and d = "[''src/a.ts'' \<mapsto> text_file (''let x = 1;'' @ [LF] @ ''const { a, b } = obj;'' @ [LF])]"
       and st = "\<lparr>lines = [''let x = 1;'' @ [LF], ''const { a, b } = obj;'' @ [LF]],
                  modified = False, fixed_count = 0\<rparr>"]
  by (simp add: plain_env_def text_file_def readlines_def)

text \<open>
  Claim C6. A buffer line \<open>import { Foo, Bar } from 'baz';\<close> and an entry reporting
  \<open>Foo\<close> unused at that line: the line becomes \<open>import { Bar } from 'baz';\<close>, the
  lines before and after it are unchanged, and the count grows by one; the run on that
  single TS6133 diagnostic writes the file back with this one line changed and returns
  the count 1.
\<close>

theorem named_import_foo_removed:
  assumes eol: "eol = [] \<or> eol = [LF]"
  shows "(lines st = pre @ (''import { Foo, Bar } from 'baz';'' @ eol) # post \<longrightarrow>
            edit_item env \<lparr>i_line = int (length pre) + 1, i_var = ''Foo''\<rparr> st
            = Inr \<lparr>lines = pre @ (''import { Bar } from 'baz';'' @ eol) # post,
                   modified = True, fixed_count = fixed_count st + 1\<rparr>) \<and>
         (d (resolve env p) = Some nd \<and> read_error nd = None \<and> write_error nd = None \<and>
          readlines (content nd) = pre @ (''import { Foo, Bar } from 'baz';'' @ eol) # post \<longrightarrow>
            fix_unused_imports env
              [\<lparr>e_file = p, e_line = int (length pre) + 1, e_col = c, e_code = ''TS6133'',
                e_message = unused ''Foo''\<rparr>] d
            = \<lparr>disk = d(resolve env p \<mapsto>
                     nd\<lparr>content := concat (pre @ (''import { Bar } from 'baz';'' @ eol) # post)\<rparr>),
               fixed = 1, printed = [], written = [resolve env p]\<rparr>)"
proof -
  have repl: "edit_line env ''Foo'' (''import { Foo, Bar } from 'baz';'' @ eol)
               = Inr (Replace (''import { Bar } from 'baz';'' @ eol))"
    using eol edit_line_foo_bar [of env] by auto
  have item: "edit_item env \<lparr>i_line = int (length pre) + 1, i_var = ''Foo''\<rparr> st
            = Inr \<lparr>lines = pre @ (''import { Bar } from 'baz';'' @ eol) # post,
                   modified = True, fixed_count = fixed_count st + 1\<rparr>"
    if "lines st = pre @ (''import { Foo, Bar } from 'baz';'' @ eol) # post" for st
    unfolding edit_item_at_line [OF that] repl by simp
  show ?thesis
    by (auto simp: item fix_unused_imports_single fix_file_def process_file_def sort_items_single)
qed

theorem named_import_foo_removed_witness:
  "edit_item plain_env \<lparr>i_line = 2, i_var = ''Foo''\<rparr>
     \<lparr>lines = [''let x = 1;'' @ [LF], ''import { Foo, Bar } from 'baz';'' @ [LF]],
      modified = False, fixed_count = 0\<rparr>
   = Inr \<lparr>lines = [''let x = 1;'' @ [LF], ''import { Bar } from 'baz';'' @ [LF]],
          modified = True, fixed_count = 1\<rparr> \<and>
   fix_unused_imports plain_env
     [\<lparr>e_file = ''src/a.ts'', e_line = 2, e_col = 10, e_code = ''TS6133'',
       e_message = unused ''Foo''\<rparr>]
     [''src/a.ts'' \<mapsto> text_file (''let x = 1;'' @ [LF] @ ''import { Foo, Bar } from 'baz';'' @ [LF])]
   = \<lparr>disk = [''src/a.ts'' \<mapsto> text_file (''let x = 1;'' @ [LF] @ ''import { Bar } from 'baz';'' @ [LF])],
      fixed = 1, printed = [], written = [''src/a.ts'']\<rparr>"
  using named_import_foo_removed
    [where eol = "[LF]" and pre = "[''let x = 1;'' @ [LF]]" and post = "[]" and env = plain_env
       and p = "''src/a.ts''" and c = 10
       and nd = "text_file (''let x = 1;'' @ [LF] @ ''import { Foo, Bar } from 'baz';'' @ [LF])"
       and d = "[''src/a.ts'' \<mapsto> text_file (''let x = 1;'' @ [LF] @ ''import { Foo, Bar } from 'baz';'' @ [LF])]"
       and st = "\<lparr>lines = [''let x = 1;'' @ [LF], ''import { Foo, Bar } from 'baz';'' @ [LF]],
                  modified = False, fixed_count = 0\<rparr>"]
  by (simp add: plain_env_def text_file_def readlines_def)

subsection \<open>The range check\<close>



text \<open>
  Claim C3, at line number 0, which the parser accepts and which is out of range for
  a 1-based line number: the log line \<open>src/a.ts(0,1): error TS6133: 'React' is declared
  but its value is never read.\<close> is parsed to an entry at line 0, and the run on a
  two-line file blanks the last line, counts one edit and writes the file.
\<close>

theorem line_zero_entry_edits_file:
  "parse_errors plain_env (''src/a.ts(0,1): error TS6133: '' @ unused ''React'' @ [LF])
     = Inr [\<lparr>e_file = ''src/a.ts'', e_line = 0, e_col = 1, e_code = ''TS6133'',
             e_message = unused ''React''\<rparr>] \<and>
   fix_unused_imports plain_env
     [\<lparr>e_file = ''src/a.ts'', e_line = 0, e_col = 1, e_code = ''TS6133'',
       e_message = unused ''React''\<rparr>]
     [''src/a.ts'' \<mapsto> text_file (''let x = 1;'' @ [LF] @ ''import React from 'react';'' @ [LF])]
   = \<lparr>disk = [''src/a.ts'' \<mapsto> text_file (''let x = 1;'' @ [LF])], fixed = 1, printed = [],
      written = [''src/a.ts'']\<rparr>"
proof -
  have p: "parse_errors plain_env (''src/a.ts(0,1): error TS6133: '' @ unused ''React'' @ [LF])
     = Inr [\<lparr>e_file = ''src/a.ts'', e_line = 0, e_col = 1, e_code = ''TS6133'',
             e_message = unused ''React''\<rparr>]"
    by code_simp
  have e: "edit_items plain_env [\<lparr>i_line = 0, i_var = ''React''\<rparr>]
       \<lparr>lines = readlines (content (text_file (''let x = 1;'' @ [LF] @ ''import React from 'react';'' @ [LF]))),
        modified = False, fixed_count = 0\<rparr>
     = (\<lparr>lines = [''let x = 1;'' @ [LF], []], modified = True, fixed_count = 1\<rparr>, None)"
    by code_simp
  have r: "resolve plain_env p = p" for p
    by (simp add: plain_env_def)
  show ?thesis
    using run_on_single_file [where env = plain_env and v = "''React''" and p = "''src/a.ts''"
        and d = "[''src/a.ts'' \<mapsto> text_file (''let x = 1;'' @ [LF] @ ''import React from 'react';'' @ [LF])]"
        and c = 1, OF _ _ _ _ _ e] p
    by (simp add: r text_file_def)
qed

subsection \<open>The import branches\<close>

text \<open>
  Claim C10. On a line that contains \<open>import\<close>, a \<open>{\<close> and a \<open>}\<close> the result is
  that of the named-import branch alone, whatever the default-import pattern would
  find; so when the reported identifier is not among the names of the first brace
  group (or no brace group matches) the line is kept, and the entry that addresses it
  changes neither the buffer nor the count.
\<close>

theorem default_import_branch_shadowed:
  assumes "sublist ''import'' l" and "CHR ''{'' \<in> set l" and "CHR ''}'' \<in> set l"
  shows "edit_line env v l = named_import env v l \<and>
         ((case search_braces l of None \<Rightarrow> True | Some g \<Rightarrow> v \<notin> set (imports_of env g)) \<longrightarrow>
            edit_line env v l = Inr Keep \<and>
            (lines st = pre @ l # post \<longrightarrow>
               edit_item env \<lparr>i_line = int (length pre) + 1, i_var = v\<rparr> st = Inr st))"
proof -
  have branch: "edit_line env v l = named_import env v l"
    using assms by (simp add: edit_line_def)
  have keep: "named_import env v l = Inr Keep"
    if "case search_braces l of None \<Rightarrow> True | Some g \<Rightarrow> v \<notin> set (imports_of env g)"
    using that by (auto simp: named_import_def split: option.splits)
  show ?thesis
    using branch keep by (auto simp: edit_item_at_line)
qed

theorem default_import_branch_shadowed_witness:
  "search_default_import plain_env ''React'' ''import React from 'react'; import { useState } from 'react';'' \<and>
   edit_line plain_env ''React'' ''import React from 'react'; import { useState } from 'react';''
     = Inr Keep \<and>
   edit_item plain_env \<lparr>i_line = 1, i_var = ''React''\<rparr>
     \<lparr>lines = [''import React from 'react'; import { useState } from 'react';''],
      modified = False, fixed_count = 0\<rparr>
     = Inr \<lparr>lines = [''import React from 'react'; import { useState } from 'react';''],
            modified = False, fixed_count = 0\<rparr>"
proof -
  have s: "search_default_import plain_env ''React'' ''import React from 'react'; import { useState } from 'react';''"
    by code_simp
  have h: "sublist ''import'' ''import React from 'react'; import { useState } from 'react';''"
    "CHR ''{'' \<in> set ''import React from 'react'; import { useState } from 'react';''"
    "CHR ''}'' \<in> set ''import React from 'react'; import { useState } from 'react';''"
    "case search_braces ''import React from 'react'; import { useState } from 'react';'' of
       None \<Rightarrow> True | Some g \<Rightarrow> ''React'' \<notin> set (imports_of plain_env g)"
    by code_simp+
  have b: "lines \<lparr>lines = [''import React from 'react'; import { useState } from 'react';''],
                   modified = False, fixed_count = 0\<rparr>
           = [] @ ''import React from 'react'; import { useState } from 'react';'' # []"
    by simp
  have "edit_line plain_env ''React'' ''import React from 'react'; import { useState } from 'react';''
          = Inr Keep"
    and "edit_item plain_env \<lparr>i_line = int (length ([] :: string list)) + 1, i_var = ''React''\<rparr>
          \<lparr>lines = [''import React from 'react'; import { useState } from 'react';''],
           modified = False, fixed_count = 0\<rparr>
          = Inr \<lparr>lines = [''import React from 'react'; import { useState } from 'react';''],
                 modified = False, fixed_count = 0\<rparr>"
    using default_import_branch_shadowed [OF h(1-3), where v = "''React''" and env = plain_env
        and pre = "[]" and post = "[]"
        and st = "\<lparr>lines = [''import React from 'react'; import { useState } from 'react';''],
                   modified = False, fixed_count = 0\<rparr>"] h(4) b
    by blast+
  then show ?thesis
    using s by simp
qed

text \<open>
  Claim C2, at a line with two brace groups: the run on the line
  \<open>import { A, B } from './m'; export { C };\<close> with \<open>A\<close> reported unused counts one
  edit and writes back \<open>import { B } from './m'; export { B };\<close>: the later brace
  group is replaced as well.
\<close>

theorem second_brace_group_rewritten:
  "fix_unused_imports plain_env
     [\<lparr>e_file = ''src/a.ts'', e_line = 1, e_col = 10, e_code = ''TS6133'',
       e_message = unused ''A''\<rparr>]
     [''src/a.ts'' \<mapsto> text_file (''import { A, B } from './m'; export { C };'' @ [LF])]
   = \<lparr>disk = [''src/a.ts'' \<mapsto> text_file (''import { B } from './m'; export { B };'' @ [LF])],
      fixed = 1, printed = [], written = [''src/a.ts'']\<rparr>"
proof -
  have e: "edit_items plain_env [\<lparr>i_line = 1, i_var = ''A''\<rparr>]
       \<lparr>lines = readlines (content (text_file (''import { A, B } from './m'; export { C };'' @ [LF]))),
        modified = False, fixed_count = 0\<rparr>
     = (\<lparr>lines = [''import { B } from './m'; export { B };'' @ [LF]], modified = True,
          fixed_count = 1\<rparr>, None)"
    by code_simp
  have r: "resolve plain_env p = p" for p
    by (simp add: plain_env_def)
  show ?thesis
    using run_on_single_file [where env = plain_env and v = "''A''" and p = "''src/a.ts''"
        and d = "[''src/a.ts'' \<mapsto> text_file (''import { A, B } from './m'; export { C };'' @ [LF])]"
        and c = 10, OF _ _ _ _ _ e]
    by (simp add: r text_file_def)
qed

subsection \<open>What one entry and one pass can change\<close>

lemma edit_item_cases:
  assumes "edit_item env it st = Inr st'"
  shows "st' = st \<or>
         (\<exists>k new_line. slot (lines st) (line_idx it) = Some k \<and>
            st' = \<lparr>lines = (lines st)[k := new_line], modified = True,
                   fixed_count = fixed_count st + 1\<rparr>)"
  using assms
  by (auto simp: edit_item_def split: if_splits option.splits sum.splits edit.splits)

lemma edit_item_length:
  "edit_item env it st = Inr st' \<Longrightarrow> length (lines st') = length (lines st)"
  by (drule edit_item_cases) auto

lemma edit_item_other_line:
  assumes "edit_item env it st = Inr st'" and "slot (lines st) (line_idx it) \<noteq> Some j"
  shows "lines st' ! j = lines st ! j"
  using edit_item_cases [OF assms(1)] assms(2) by auto

lemma edit_item_count:
  assumes "edit_item env it st = Inr st'"
  shows "fixed_count st \<le> fixed_count st' \<and>
         (modified st' \<longleftrightarrow> modified st \<or> fixed_count st < fixed_count st') \<and>
         (fixed_count st' = fixed_count st \<longrightarrow> st' = st)"
  using edit_item_cases [OF assms] by auto

lemma edit_items_length:
  "edit_items env its st = (st', x) \<Longrightarrow> length (lines st') = length (lines st)"
proof (induction its arbitrary: st)
  case Nil
  then show ?case by simp
next
  case (Cons it its)
  show ?case
  proof (cases "edit_item env it st")
    case (Inl e)
    with Cons.prems show ?thesis by simp
  next
    case (Inr st1)
    with Cons.prems have "edit_items env its st1 = (st', x)" by simp
    then have "length (lines st') = length (lines st1)" by (rule Cons.IH)
    with edit_item_length [OF Inr] show ?thesis by simp
  qed
qed

lemma edit_items_count:
  "edit_items env its st = (st', x) \<Longrightarrow>
     fixed_count st \<le> fixed_count st' \<and>
     (modified st' \<longleftrightarrow> modified st \<or> fixed_count st < fixed_count st') \<and>
     (fixed_count st' = fixed_count st \<longrightarrow> st' = st)"
proof (induction its arbitrary: st)
  case Nil
  then show ?case by simp
next
  case (Cons it its)
  show ?case
  proof (cases "edit_item env it st")
    case (Inl e)
    with Cons.prems show ?thesis by simp
  next
    case (Inr st1)
    with Cons.prems have "edit_items env its st1 = (st', x)" by simp
    from Cons.IH [OF this] edit_item_count [OF Inr] show ?thesis by auto
  qed
qed

lemma slot_positive:
  "0 \<le> i \<Longrightarrow> slot xs i = Some k \<Longrightarrow> int k = i"
  by (auto simp: slot_def split: if_splits)

lemma slot_same_length: "length xs = length ys \<Longrightarrow> slot xs i = slot ys i"
  by (simp add: slot_def)

lemma edit_items_earlier_line:
  assumes "edit_items env its st = (st', x)"
    and "list_all (\<lambda>d. i_line it < i_line d) its" and "1 \<le> i_line it"
    and "slot (lines st) (line_idx it) = Some k"
  shows "slot (lines st') (line_idx it) = Some k \<and> lines st' ! k = lines st ! k"
  using assms
proof (induction its arbitrary: st)
  case Nil
  then show ?case by simp
next
  case (Cons d its)
  show ?case
  proof (cases "edit_item env d st")
    case (Inl e)
    with Cons.prems show ?thesis by simp
  next
    case (Inr st1)
    have k: "int k = line_idx it"
      using Cons.prems(3,4) by (intro slot_positive) (auto simp: line_idx_def)
    have "slot (lines st) (line_idx d) \<noteq> Some k"
    proof
      assume "slot (lines st) (line_idx d) = Some k"
      moreover have "0 \<le> line_idx d"
        using Cons.prems(2,3) by (simp add: line_idx_def)
      ultimately have "int k = line_idx d" by (intro slot_positive)
      with k have "i_line d = i_line it" by (simp add: line_idx_def)
      with Cons.prems(2) show False by simp
    qed
    then have same: "lines st1 ! k = lines st ! k"
      by (rule edit_item_other_line [OF Inr])
    have "slot (lines st1) (line_idx it) = Some k"
      using slot_same_length [OF edit_item_length [OF Inr]] Cons.prems(4) by simp
    moreover have "edit_items env its st1 = (st', x)"
      using Cons.prems(1) Inr by simp
    moreover have "list_all (\<lambda>d. i_line it < i_line d) its"
      using Cons.prems(2) by simp
    ultimately have "slot (lines st') (line_idx it) = Some k \<and> lines st' ! k = lines st1 ! k"
      using Cons.prems(3) by (intro Cons.IH)
    with same show ?thesis by simp
  qed
qed

subsection \<open>The order of the pass\<close>

lemma sort_items_descending: "sorted_wrt (\<lambda>a b. i_line b \<le> i_line a) (sort_items es)"
proof -
  have "sorted (map i_line (sort_key i_line (rev es)))"
    by (rule sorted_sort_key)
  then have "sorted_wrt (\<lambda>a b. i_line a \<le> i_line b) (sort_key i_line (rev es))"
    by (simp add: sorted_map)
  then show ?thesis
    by (simp add: sort_items_def sorted_wrt_rev)
qed

lemma mset_sort_items: "mset (sort_items es) = mset es"
  by (simp add: sort_items_def)

lemma sort_items_order_free:
  assumes "mset es' = mset es" and "distinct (map i_line es)"
  shows "sort_items es' = sort_items es"
proof -
  have "mset (map i_line es') = mset (map i_line es)"
    using assms(1) by simp
  then have d': "distinct (map i_line es')"
    using assms(2) mset_eq_imp_distinct_iff by blast
  have sets: "set es' = set es"
    using assms(1) by (rule mset_eq_setD)
  have inj: "inj_on i_line (set es)"
    using assms(2) by (simp add: distinct_map)
  have "sort_key i_line (rev es') = sort_key i_line (rev es)"
  proof (rule map_sorted_distinct_set_unique [where f = i_line])
    show "inj_on i_line (set (sort_key i_line (rev es')) \<union> set (sort_key i_line (rev es)))"
      using inj sets by simp
    show "sorted (map i_line (sort_key i_line (rev es')))"
      by (rule sorted_sort_key)
    show "sorted (map i_line (sort_key i_line (rev es)))"
      by (rule sorted_sort_key)
    show "distinct (map i_line (sort_key i_line (rev es')))"
      using d' by (simp add: distinct_map)
    show "distinct (map i_line (sort_key i_line (rev es)))"
      using assms(2) by (simp add: distinct_map)
    show "set (sort_key i_line (rev es')) = set (sort_key i_line (rev es))"
      using sets by simp
  qed
  then show ?thesis by (simp add: sort_items_def)
qed


subsection \<open>What processing one file can change\<close>

lemma process_file_read_error:
  "read_error nd = Some e \<Longrightarrow> process_file env r q nd es = (r, Some e)"
  by (simp add: process_file_def)

lemma process_file_cases:
  assumes "read_error nd = None"
    and "edit_items env (sort_items es)
           \<lparr>lines = readlines (content nd), modified = False, fixed_count = fixed r\<rparr> = (st, y)"
  shows "process_file env r q nd es =
     (if y = None \<and> modified st \<and> write_error nd = None
      then (r\<lparr>disk := (disk r)(q \<mapsto> nd\<lparr>content := concat (lines st)\<rparr>),
              fixed := fixed_count st, written := written r @ [q]\<rparr>, None)
      else (r\<lparr>fixed := fixed_count st\<rparr>,
            if y \<noteq> None then y else if modified st then write_error nd else None))"
  using assms by (auto simp: process_file_def split: option.splits)

lemma process_file_frame:
  assumes "process_file env r q nd es = (r1, x)"
  shows "printed r1 = printed r \<and> fixed r \<le> fixed r1 \<and>
         (written r1 = written r \<and> disk r1 = disk r \<or>
          x = None \<and> fixed r < fixed r1 \<and> written r1 = written r @ [q]) \<and>
         (x = None \<and> fixed r < fixed r1 \<longrightarrow> written r1 = written r @ [q]) \<and>
         (fixed r1 = fixed r \<longrightarrow> written r1 = written r \<and> disk r1 = disk r)"
proof (cases "read_error nd")
  case (Some e)
  with assms show ?thesis by (simp add: process_file_read_error)
next
  case None
  obtain st y where ei: "edit_items env (sort_items es)
      \<lparr>lines = readlines (content nd), modified = False, fixed_count = fixed r\<rparr> = (st, y)"
    by (cases "edit_items env (sort_items es)
      \<lparr>lines = readlines (content nd), modified = False, fixed_count = fixed r\<rparr>")
  from edit_items_count [OF ei]
  have c: "fixed r \<le> fixed_count st" "modified st \<longleftrightarrow> fixed r < fixed_count st"
    by simp_all
  show ?thesis
    using assms c unfolding process_file_cases [OF None ei]
    by (auto split: if_splits)
qed

lemma fix_file_fixed_mono: "fixed r \<le> fixed (fix_file env r g)"
proof (cases "disk r (resolve env (fst g))")
  case None
  then show ?thesis by (simp add: fix_file_def)
next
  case (Some nd)
  obtain r1 x where pf: "process_file env r (resolve env (fst g)) nd (snd g) = (r1, x)"
    by (cases "process_file env r (resolve env (fst g)) nd (snd g)")
  from process_file_frame [OF pf] have "fixed r \<le> fixed r1" by simp
  with Some pf show ?thesis
    by (cases x) (simp_all add: fix_file_def)
qed

lemma foldl_fix_file_fixed_mono: "fixed r \<le> fixed (foldl (fix_file env) r gs)"
proof (induction gs arbitrary: r)
  case Nil
  show ?case by simp
next
  case (Cons g gs)
  have "fixed r \<le> fixed (fix_file env r g)" by (rule fix_file_fixed_mono)
  also have "\<dots> \<le> fixed (foldl (fix_file env) (fix_file env r g) gs)" by (rule Cons.IH)
  finally show ?case by simp
qed

lemma sublist_error_fixing: "sublist p (error_fixing p e)"
  unfolding error_fixing_def by (rule sublist_appendI)

subsection \<open>Writing a file back\<close>

lemma foldl_fix_file_no_edit:
  "fixed (foldl (fix_file env) r gs) = fixed r \<Longrightarrow>
     disk (foldl (fix_file env) r gs) = disk r \<and> written (foldl (fix_file env) r gs) = written r"
proof (induction gs arbitrary: r)
  case Nil
  show ?case by simp
next
  case (Cons g gs)
  have le: "fixed r \<le> fixed (fix_file env r g)"
    by (rule fix_file_fixed_mono)
  have "fixed (fix_file env r g) \<le> fixed (foldl (fix_file env) (fix_file env r g) gs)"
    by (rule foldl_fix_file_fixed_mono)
  with Cons.prems le have same: "fixed (fix_file env r g) = fixed r"
    by simp
  with Cons.prems have "fixed (foldl (fix_file env) (fix_file env r g) gs) = fixed (fix_file env r g)"
    by simp
  from Cons.IH [OF this] have rest: "disk (foldl (fix_file env) r (g # gs)) = disk (fix_file env r g)"
    "written (foldl (fix_file env) r (g # gs)) = written (fix_file env r g)"
    by simp_all
  have "written (fix_file env r g) = written r \<and> disk (fix_file env r g) = disk r"
  proof (cases "disk r (resolve env (fst g))")
    case None
    then show ?thesis by (simp add: fix_file_def)
  next
    case (Some nd)
    obtain r1 x where pf: "process_file env r (resolve env (fst g)) nd (snd g) = (r1, x)"
      by (cases "process_file env r (resolve env (fst g)) nd (snd g)")
    have ff: "fix_file env r g =
        (case x of None \<Rightarrow> r1 | Some e \<Rightarrow> r1\<lparr>printed := printed r1 @ [error_fixing (fst g) e]\<rparr>)"
      using Some pf by (simp add: fix_file_def split: option.splits)
    show ?thesis
      using same process_file_frame [OF pf] unfolding ff by (cases x) auto
  qed
  with rest show ?case by simp
qed

lemma two_entries_collected:
  assumes "quote \<notin> set v" "v \<noteq> []" "quote \<notin> set w" "w \<noteq> []"
  shows "files_to_fix
     [\<lparr>e_file = p, e_line = n, e_col = c, e_code = ''TS6133'', e_message = unused v\<rparr>,
      \<lparr>e_file = q, e_line = m, e_col = c', e_code = ''TS6133'', e_message = unused w\<rparr>]
    = (if p = q then [(p, [\<lparr>i_line = n, i_var = v\<rparr>, \<lparr>i_line = m, i_var = w\<rparr>])]
       else [(p, [\<lparr>i_line = n, i_var = v\<rparr>]), (q, [\<lparr>i_line = m, i_var = w\<rparr>])])"
  using assms by (simp add: files_to_fix_def collect_error_def unused_declared)

lemma fix_file_result:
  assumes "disk r (resolve env p) = Some nd" and "read_error nd = None"
    and "edit_items env (sort_items es)
           \<lparr>lines = readlines (content nd), modified = False, fixed_count = fixed r\<rparr> = (st, y)"
  shows "fix_file env r (p, es) =
     (if y = None \<and> modified st \<and> write_error nd = None
      then r\<lparr>disk := (disk r)(resolve env p \<mapsto> nd\<lparr>content := concat (lines st)\<rparr>),
             fixed := fixed_count st, written := written r @ [resolve env p]\<rparr>
      else (case (if y \<noteq> None then y else if modified st then write_error nd else None) of
              None \<Rightarrow> r\<lparr>fixed := fixed_count st\<rparr>
            | Some e \<Rightarrow> r\<lparr>fixed := fixed_count st, printed := printed r @ [error_fixing p e]\<rparr>))"
  using assms(1) by (simp add: fix_file_def process_file_cases [OF assms(2,3)])

text \<open>
  Claim C8, as amended. Processing one file writes it only after an edit was counted
  for it, and then exactly once, at its resolved path; when no edit is counted for the
  file nothing is written and the disk is as before; and when processing the file
  raised no exception (the handler printed nothing) and an edit was counted, the file
  is written. A whole run that counts no edit writes nothing and leaves the disk as
  it was.
\<close>

theorem write_follows_edits:
  "(written (fix_file env r (p, es)) \<noteq> written r \<longrightarrow>
      fixed r < fixed (fix_file env r (p, es)) \<and>
      written (fix_file env r (p, es)) = written r @ [resolve env p]) \<and>
   (fixed (fix_file env r (p, es)) = fixed r \<longrightarrow>
      written (fix_file env r (p, es)) = written r \<and> disk (fix_file env r (p, es)) = disk r) \<and>
   (printed (fix_file env r (p, es)) = printed r \<and> fixed r < fixed (fix_file env r (p, es)) \<longrightarrow>
      written (fix_file env r (p, es)) = written r @ [resolve env p]) \<and>
   (fixed (fix_unused_imports env errors d) = 0 \<longrightarrow>
      written (fix_unused_imports env errors d) = [] \<and> disk (fix_unused_imports env errors d) = d)"
proof (cases "disk r (resolve env p)")
  case None
  then show ?thesis
    using foldl_fix_file_no_edit
      [of env "\<lparr>disk = d, fixed = 0, printed = [], written = []\<rparr>" "files_to_fix errors"]
    by (simp add: fix_file_def fix_unused_imports_def)
next
  case (Some nd)
  obtain r1 x where pf: "process_file env r (resolve env p) nd es = (r1, x)"
    by (cases "process_file env r (resolve env p) nd es")
  have ff: "fix_file env r (p, es) =
      (case x of None \<Rightarrow> r1 | Some e \<Rightarrow> r1\<lparr>printed := printed r1 @ [error_fixing p e]\<rparr>)"
    using Some pf by (simp add: fix_file_def split: option.splits)
  have run: "fixed (fix_unused_imports env errors d) = 0 \<longrightarrow>
      written (fix_unused_imports env errors d) = [] \<and> disk (fix_unused_imports env errors d) = d"
    using foldl_fix_file_no_edit
      [of env "\<lparr>disk = d, fixed = 0, printed = [], written = []\<rparr>" "files_to_fix errors"]
    by (simp add: fix_unused_imports_def)
  have "(written (fix_file env r (p, es)) \<noteq> written r \<longrightarrow>
      fixed r < fixed (fix_file env r (p, es)) \<and>
      written (fix_file env r (p, es)) = written r @ [resolve env p]) \<and>
   (fixed (fix_file env r (p, es)) = fixed r \<longrightarrow>
      written (fix_file env r (p, es)) = written r \<and> disk (fix_file env r (p, es)) = disk r) \<and>
   (printed (fix_file env r (p, es)) = printed r \<and> fixed r < fixed (fix_file env r (p, es)) \<longrightarrow>
      written (fix_file env r (p, es)) = written r @ [resolve env p])"
    unfolding ff using process_file_frame [OF pf]
    by (cases x) auto
  with run show ?thesis by blast
qed

theorem write_follows_edits_witness:
  "printed (fix_file plain_env
      \<lparr>disk = [''src/a.ts'' \<mapsto> text_file (''import { Foo, Bar } from 'baz';'' @ [LF])],
       fixed = 0, printed = [], written = []\<rparr>
      (''src/a.ts'', [\<lparr>i_line = 1, i_var = ''Foo''\<rparr>])) = [] \<and>
   fixed (fix_file plain_env
      \<lparr>disk = [''src/a.ts'' \<mapsto> text_file (''import { Foo, Bar } from 'baz';'' @ [LF])],
       fixed = 0, printed = [], written = []\<rparr>
      (''src/a.ts'', [\<lparr>i_line = 1, i_var = ''Foo''\<rparr>])) = 1 \<and>
   written (fix_file plain_env
      \<lparr>disk = [''src/a.ts'' \<mapsto> text_file (''import { Foo, Bar } from 'baz';'' @ [LF])],
       fixed = 0, printed = [], written = []\<rparr>
      (''src/a.ts'', [\<lparr>i_line = 1, i_var = ''Foo''\<rparr>])) = [''src/a.ts'']"
proof -
  have e: "edit_items plain_env (sort_items [\<lparr>i_line = 1, i_var = ''Foo''\<rparr>])
       \<lparr>lines = readlines (content (text_file (''import { Foo, Bar } from 'baz';'' @ [LF]))),
        modified = False,
        fixed_count = fixed \<lparr>disk = [''src/a.ts'' \<mapsto> text_file (''import { Foo, Bar } from 'baz';'' @ [LF])],
                             fixed = 0, printed = [], written = []\<rparr>\<rparr>
     = (\<lparr>lines = [''import { Bar } from 'baz';'' @ [LF]], modified = True, fixed_count = 1\<rparr>, None)"
    by code_simp
  have r: "resolve plain_env p = p" for p
    by (simp add: plain_env_def)
  have ff: "printed (fix_file plain_env
      \<lparr>disk = [''src/a.ts'' \<mapsto> text_file (''import { Foo, Bar } from 'baz';'' @ [LF])],
       fixed = 0, printed = [], written = []\<rparr>
      (''src/a.ts'', [\<lparr>i_line = 1, i_var = ''Foo''\<rparr>])) = []"
    "fixed (fix_file plain_env
      \<lparr>disk = [''src/a.ts'' \<mapsto> text_file (''import { Foo, Bar } from 'baz';'' @ [LF])],
       fixed = 0, printed = [], written = []\<rparr>
      (''src/a.ts'', [\<lparr>i_line = 1, i_var = ''Foo''\<rparr>])) = 1"
    using fix_file_result [where env = plain_env and p = "''src/a.ts''", OF _ _ e]
    by (simp_all add: r text_file_def)
  have hyp: "printed (fix_file plain_env
      \<lparr>disk = [''src/a.ts'' \<mapsto> text_file (''import { Foo, Bar } from 'baz';'' @ [LF])],
       fixed = 0, printed = [], written = []\<rparr>
      (''src/a.ts'', [\<lparr>i_line = 1, i_var = ''Foo''\<rparr>]))
     = printed \<lparr>disk = [''src/a.ts'' \<mapsto> text_file (''import { Foo, Bar } from 'baz';'' @ [LF])],
       fixed = 0, printed = [], written = []\<rparr> \<and>
    fixed \<lparr>disk = [''src/a.ts'' \<mapsto> text_file (''import { Foo, Bar } from 'baz';'' @ [LF])],
       fixed = 0, printed = [], written = []\<rparr>
     < fixed (fix_file plain_env
      \<lparr>disk = [''src/a.ts'' \<mapsto> text_file (''import { Foo, Bar } from 'baz';'' @ [LF])],
       fixed = 0, printed = [], written = []\<rparr>
      (''src/a.ts'', [\<lparr>i_line = 1, i_var = ''Foo''\<rparr>]))"
    using ff by simp
  have "written (fix_file plain_env
      \<lparr>disk = [''src/a.ts'' \<mapsto> text_file (''import { Foo, Bar } from 'baz';'' @ [LF])],
       fixed = 0, printed = [], written = []\<rparr>
      (''src/a.ts'', [\<lparr>i_line = 1, i_var = ''Foo''\<rparr>]))
     = written \<lparr>disk = [''src/a.ts'' \<mapsto> text_file (''import { Foo, Bar } from 'baz';'' @ [LF])],
       fixed = 0, printed = [], written = []\<rparr> @ [resolve plain_env ''src/a.ts'']"
    using write_follows_edits [where env = plain_env and p = "''src/a.ts''"
        and es = "[\<lparr>i_line = 1, i_var = ''Foo''\<rparr>]" and errors = "[]" and d = "Map.empty"
        and r = "\<lparr>disk = [''src/a.ts'' \<mapsto> text_file (''import { Foo, Bar } from 'baz';'' @ [LF])],
                  fixed = 0, printed = [], written = []\<rparr>"] hyp
    by blast
  then show ?thesis
    using ff by (simp add: r)
qed

text \<open>
  Claim C8 as stated fails when an exception ends the processing of a file after an
  edit: here the entry at line 2 is applied and counted, the entry at line 1 then makes
  \<open>re.sub\<close> raise on the replacement \<open>{ \1 }\<close>, and the handler goes on without
  the write. (A file that cannot be opened for writing gives the same outcome.)
\<close>

theorem edit_counted_but_file_not_written:
  "fix_unused_imports plain_env
     [\<lparr>e_file = ''src/a.ts'', e_line = 1, e_col = 10, e_code = ''TS6133'', e_message = unused ''A''\<rparr>,
      \<lparr>e_file = ''src/a.ts'', e_line = 2, e_col = 10, e_code = ''TS6133'', e_message = unused ''X''\<rparr>]
     [''src/a.ts'' \<mapsto> text_file (''import { A, '' @ [backslash] @ ''1 } from './m';'' @ [LF] @
                                   ''import { X, Y } from './n';'' @ [LF])]
   = \<lparr>disk = [''src/a.ts'' \<mapsto> text_file (''import { A, '' @ [backslash] @ ''1 } from './m';'' @ [LF] @
                                          ''import { X, Y } from './n';'' @ [LF])],
      fixed = 1,
      printed = [''Error fixing src/a.ts: invalid group reference 1 at position 3''],
      written = []\<rparr>"
proof -
  have e: "edit_items plain_env
       (sort_items [\<lparr>i_line = 1, i_var = ''A''\<rparr>, \<lparr>i_line = 2, i_var = ''X''\<rparr>])
       \<lparr>lines = readlines (content (text_file (''import { A, '' @ [backslash] @ ''1 } from './m';'' @ [LF] @
                            ''import { X, Y } from './n';'' @ [LF]))),
        modified = False,
        fixed_count = fixed \<lparr>disk = [''src/a.ts'' \<mapsto> text_file (''import { A, '' @ [backslash] @ ''1 } from './m';'' @ [LF] @
                                   ''import { X, Y } from './n';'' @ [LF])], fixed = 0, printed = [], written = []\<rparr>\<rparr>
     = (\<lparr>lines = [''import { A, '' @ [backslash] @ ''1 } from './m';'' @ [LF],
                  ''import { Y } from './n';'' @ [LF]],
         modified = True, fixed_count = 1\<rparr>,
        Some (Raised ''invalid group reference 1 at position 3''))"
    by code_simp
  have r: "resolve plain_env p = p" for p
    by (simp add: plain_env_def)
  have f: "files_to_fix
     [\<lparr>e_file = ''src/a.ts'', e_line = 1, e_col = 10, e_code = ''TS6133'', e_message = unused ''A''\<rparr>,
      \<lparr>e_file = ''src/a.ts'', e_line = 2, e_col = 10, e_code = ''TS6133'', e_message = unused ''X''\<rparr>]
     = [(''src/a.ts'', [\<lparr>i_line = 1, i_var = ''A''\<rparr>, \<lparr>i_line = 2, i_var = ''X''\<rparr>])]"
    by (simp add: two_entries_collected)
  show ?thesis
    unfolding fix_unused_imports_def f
    using fix_file_result [where env = plain_env and p = "''src/a.ts''", OF _ _ e]
    by (simp add: r text_file_def error_fixing_def exn_str_def)
qed

subsection \<open>The order of the entries\<close>

lemma edit_items_append:
  "edit_items env (a @ b) st =
     (case edit_items env a st of
        (st', None) \<Rightarrow> edit_items env b st'
      | (st', Some e) \<Rightarrow> (st', Some e))"
  by (induction a arbitrary: st) (simp_all split: sum.splits)

lemma sort_items_stable:
  "filter (\<lambda>e. i_line e = n) (sort_items es) = filter (\<lambda>e. i_line e = n) es"
proof -
  have "filter (\<lambda>e. i_line e = n) (sort_key i_line (rev es)) = filter (\<lambda>e. i_line e = n) (rev es)"
    by (rule sort_key_stable)
  then have "rev (filter (\<lambda>e. i_line e = n) (sort_key i_line (rev es)))
      = rev (filter (\<lambda>e. i_line e = n) (rev es))"
    by simp
  then show ?thesis
    by (simp add: sort_items_def rev_filter)
qed

lemma sort_items_unique:
  assumes "sorted_wrt (\<lambda>a b. i_line b \<le> i_line a) its" and "mset its = mset es"
    and "\<forall>n. filter (\<lambda>e. i_line e = n) its = filter (\<lambda>e. i_line e = n) es"
  shows "sort_items es = its"
proof -
  have "sort_key i_line (rev es) = rev its"
  proof (rule properties_for_sort_key)
    show "mset (rev its) = mset (rev es)"
      using assms(2) by simp
    show "sorted (map i_line (rev its))"
      using assms(1) by (simp add: sorted_map sorted_wrt_rev)
    fix k
    assume "k \<in> set (rev its)"
    have eq: "(\<lambda>x. i_line k = i_line x) = (\<lambda>e. i_line e = i_line k)"
      by auto
    show "filter (\<lambda>x. i_line k = i_line x) (rev its) = filter (\<lambda>x. i_line k = i_line x) (rev es)"
      unfolding eq using assms(3) by (simp add: rev_filter [symmetric])
  qed
  then show ?thesis by (simp add: sort_items_def)
qed

lemma run_split:
  assumes "files_to_fix errors = gs1 @ g # gs2"
  shows "fix_unused_imports env errors d =
     foldl (fix_file env)
       (fix_file env (foldl (fix_file env) \<lparr>disk = d, fixed = 0, printed = [], written = []\<rparr> gs1) g)
       gs2"
  by (simp add: fix_unused_imports_def assms)

text \<open>
  Claim C5. Take a run in which the turn of the file \<open>p\<close> comes with the entries
  \<open>es\<close>, the file exists and can be read, and let \<open>its\<close> be these entries put in
  descending order of line number, entries of the same line in the order of the log.
  Then what the run does with the file is what the edit loop does on \<open>its\<close>, from the
  first to the last: the count it reaches is the new count, the buffer it leaves is what
  is written, and the run goes on from there with the remaining files. \<open>its\<close> is the
  list the sort produces whatever the order of the log, and when no two entries share
  a line that order makes no difference to the file's round. The loop applies a list
  of entries one after the other, never changes the length of the buffer, so an index
  keeps denoting the same slot, and an entry at a line number of at least 1 that is
  smaller than all those processed before it still finds, at the slot it addresses,
  the line that was there before they were processed.
\<close>

theorem entries_processed_in_descending_order:
  assumes "files_to_fix errors = gs1 @ (p, es) # gs2"
    and "r = foldl (fix_file env) \<lparr>disk = d, fixed = 0, printed = [], written = []\<rparr> gs1"
    and "disk r (resolve env p) = Some nd" and "read_error nd = None"
    and "sorted_wrt (\<lambda>a b. i_line b \<le> i_line a) its" and "mset its = mset es"
    and "\<forall>n. filter (\<lambda>e. i_line e = n) its = filter (\<lambda>e. i_line e = n) es"
    and "edit_items env its
           \<lparr>lines = readlines (content nd), modified = False, fixed_count = fixed r\<rparr> = (st, y)"
  shows "fix_unused_imports env errors d =
           foldl (fix_file env)
             (if y = None \<and> modified st \<and> write_error nd = None
              then r\<lparr>disk := (disk r)(resolve env p \<mapsto> nd\<lparr>content := concat (lines st)\<rparr>),
                     fixed := fixed_count st, written := written r @ [resolve env p]\<rparr>
              else (case (if y \<noteq> None then y else if modified st then write_error nd else None) of
                      None \<Rightarrow> r\<lparr>fixed := fixed_count st\<rparr>
                    | Some e \<Rightarrow>
                        r\<lparr>fixed := fixed_count st, printed := printed r @ [error_fixing p e]\<rparr>))
             gs2 \<and>
         sort_items es = its \<and>
         (mset es' = mset es \<and> distinct (map i_line es) \<longrightarrow>
            fix_file env r (p, es') = fix_file env r (p, es)) \<and>
         edit_items env (xs @ zs) s =
           (case edit_items env xs s of
              (s', None) \<Rightarrow> edit_items env zs s'
            | (s', Some e) \<Rightarrow> (s', Some e)) \<and>
         (edit_items env xs s = (s', x) \<longrightarrow>
            length (lines s') = length (lines s) \<and>
            slot (lines s') i = slot (lines s) i \<and>
            (list_all (\<lambda>d. i_line it < i_line d) xs \<and> 1 \<le> i_line it \<and>
             slot (lines s) (line_idx it) = Some k \<longrightarrow>
               slot (lines s') (line_idx it) = Some k \<and> lines s' ! k = lines s ! k))"
proof -
  have sorted: "sort_items es = its"
    using assms(5-7) by (rule sort_items_unique)
  have pass: "edit_items env (sort_items es)
      \<lparr>lines = readlines (content nd), modified = False, fixed_count = fixed r\<rparr> = (st, y)"
    using assms(8) sorted by simp
  have run: "fix_unused_imports env errors d = foldl (fix_file env) (fix_file env r (p, es)) gs2"
    unfolding assms(2) using assms(1) by (rule run_split)
  have c1: "fix_unused_imports env errors d =
           foldl (fix_file env)
             (if y = None \<and> modified st \<and> write_error nd = None
              then r\<lparr>disk := (disk r)(resolve env p \<mapsto> nd\<lparr>content := concat (lines st)\<rparr>),
                     fixed := fixed_count st, written := written r @ [resolve env p]\<rparr>
              else (case (if y \<noteq> None then y else if modified st then write_error nd else None) of
                      None \<Rightarrow> r\<lparr>fixed := fixed_count st\<rparr>
                    | Some e \<Rightarrow>
                        r\<lparr>fixed := fixed_count st, printed := printed r @ [error_fixing p e]\<rparr>))
             gs2"
    by (simp only: run fix_file_result [OF assms(3,4) pass])
  have c3: "mset es' = mset es \<and> distinct (map i_line es) \<longrightarrow>
            fix_file env r (p, es') = fix_file env r (p, es)"
  proof
    assume a: "mset es' = mset es \<and> distinct (map i_line es)"
    then have eq: "sort_items es' = sort_items es"
      by (intro sort_items_order_free) simp_all
    then have "process_file env r q nd' es' = process_file env r q nd' es" for q nd'
      by (simp add: process_file_def split: option.splits)
    with eq show "fix_file env r (p, es') = fix_file env r (p, es)"
      by (simp add: fix_file_def split: option.splits)
  qed
  have c4: "edit_items env (xs @ zs) s =
           (case edit_items env xs s of
              (s', None) \<Rightarrow> edit_items env zs s'
            | (s', Some e) \<Rightarrow> (s', Some e))"
    by (rule edit_items_append)
  have c5: "edit_items env xs s = (s', x) \<longrightarrow>
            length (lines s') = length (lines s) \<and>
            slot (lines s') i = slot (lines s) i \<and>
            (list_all (\<lambda>d. i_line it < i_line d) xs \<and> 1 \<le> i_line it \<and>
             slot (lines s) (line_idx it) = Some k \<longrightarrow>
               slot (lines s') (line_idx it) = Some k \<and> lines s' ! k = lines s ! k)"
    using edit_items_length [of env xs s s' x] edit_items_earlier_line [of env xs s s' x it k]
      slot_same_length [of "lines s'" "lines s" i]
    by blast
  show ?thesis
    by (intro conjI) (rule c1, rule sorted, rule c3, rule c4, rule c5)
qed

theorem entries_processed_in_descending_order_witness:
  "fix_unused_imports plain_env
     [\<lparr>e_file = ''src/a.ts'', e_line = 1, e_col = 10, e_code = ''TS6133'', e_message = unused ''Foo''\<rparr>,
      \<lparr>e_file = ''src/a.ts'', e_line = 3, e_col = 8, e_code = ''TS6133'', e_message = unused ''React''\<rparr>]
     [''src/a.ts'' \<mapsto> text_file (''import { Foo, Bar } from 'baz';'' @ [LF] @ ''let x = 1;'' @ [LF] @ ''import React from 'react';'' @ [LF])]
   = \<lparr>disk = [''src/a.ts'' \<mapsto> text_file (''import { Bar } from 'baz';'' @ [LF] @ ''let x = 1;'' @ [LF])],
      fixed = 2, printed = [], written = [''src/a.ts'']\<rparr> \<and>
   sort_items [\<lparr>i_line = 1, i_var = ''Foo''\<rparr>, \<lparr>i_line = 3, i_var = ''React''\<rparr>] = [\<lparr>i_line = 3, i_var = ''React''\<rparr>, \<lparr>i_line = 1, i_var = ''Foo''\<rparr>] \<and>
   fix_file plain_env \<lparr>disk = [''src/a.ts'' \<mapsto> text_file (''import { Foo, Bar } from 'baz';'' @ [LF] @ ''let x = 1;'' @ [LF] @ ''import React from 'react';'' @ [LF])], fixed = 0, printed = [], written = []\<rparr> (''src/a.ts'', [\<lparr>i_line = 3, i_var = ''React''\<rparr>, \<lparr>i_line = 1, i_var = ''Foo''\<rparr>])
     = fix_file plain_env \<lparr>disk = [''src/a.ts'' \<mapsto> text_file (''import { Foo, Bar } from 'baz';'' @ [LF] @ ''let x = 1;'' @ [LF] @ ''import React from 'react';'' @ [LF])], fixed = 0, printed = [], written = []\<rparr> (''src/a.ts'', [\<lparr>i_line = 1, i_var = ''Foo''\<rparr>, \<lparr>i_line = 3, i_var = ''React''\<rparr>]) \<and>
   slot [''import { Foo, Bar } from 'baz';'' @ [LF], ''let x = 1;'' @ [LF], []] (line_idx \<lparr>i_line = 1, i_var = ''Foo''\<rparr>) = Some 0 \<and>
   [''import { Foo, Bar } from 'baz';'' @ [LF], ''let x = 1;'' @ [LF], []] ! 0 = ''import { Foo, Bar } from 'baz';'' @ [LF]"
proof -
  have res: "resolve plain_env p = p" for p
    by (simp add: plain_env_def)
  have h1: "files_to_fix
     [\<lparr>e_file = ''src/a.ts'', e_line = 1, e_col = 10, e_code = ''TS6133'', e_message = unused ''Foo''\<rparr>,
      \<lparr>e_file = ''src/a.ts'', e_line = 3, e_col = 8, e_code = ''TS6133'', e_message = unused ''React''\<rparr>]
     = [] @ (''src/a.ts'', [\<lparr>i_line = 1, i_var = ''Foo''\<rparr>, \<lparr>i_line = 3, i_var = ''React''\<rparr>]) # []"
    by (simp add: two_entries_collected)
  have h2: "\<lparr>disk = [''src/a.ts'' \<mapsto> text_file (''import { Foo, Bar } from 'baz';'' @ [LF] @ ''let x = 1;'' @ [LF] @ ''import React from 'react';'' @ [LF])], fixed = 0, printed = [], written = []\<rparr>
     = foldl (fix_file plain_env)
         \<lparr>disk = [''src/a.ts'' \<mapsto> text_file (''import { Foo, Bar } from 'baz';'' @ [LF] @ ''let x = 1;'' @ [LF] @ ''import React from 'react';'' @ [LF])], fixed = 0, printed = [], written = []\<rparr> []"
    by simp
  have h3: "disk \<lparr>disk = [''src/a.ts'' \<mapsto> text_file (''import { Foo, Bar } from 'baz';'' @ [LF] @ ''let x = 1;'' @ [LF] @ ''import React from 'react';'' @ [LF])], fixed = 0, printed = [], written = []\<rparr> (resolve plain_env ''src/a.ts'') = Some (text_file (''import { Foo, Bar } from 'baz';'' @ [LF] @ ''let x = 1;'' @ [LF] @ ''import React from 'react';'' @ [LF]))"
    by (simp add: res)
  have h4: "read_error (text_file (''import { Foo, Bar } from 'baz';'' @ [LF] @ ''let x = 1;'' @ [LF] @ ''import React from 'react';'' @ [LF])) = None"
    by (simp add: text_file_def)
  have h5: "sorted_wrt (\<lambda>a b. i_line b \<le> i_line a) [\<lparr>i_line = 3, i_var = ''React''\<rparr>, \<lparr>i_line = 1, i_var = ''Foo''\<rparr>]"
    by simp
  have h6: "mset [\<lparr>i_line = 3, i_var = ''React''\<rparr>, \<lparr>i_line = 1, i_var = ''Foo''\<rparr>] = mset [\<lparr>i_line = 1, i_var = ''Foo''\<rparr>, \<lparr>i_line = 3, i_var = ''React''\<rparr>]"
    by simp
  have h7: "\<forall>n. filter (\<lambda>e. i_line e = n) [\<lparr>i_line = 3, i_var = ''React''\<rparr>, \<lparr>i_line = 1, i_var = ''Foo''\<rparr>]
              = filter (\<lambda>e. i_line e = n) [\<lparr>i_line = 1, i_var = ''Foo''\<rparr>, \<lparr>i_line = 3, i_var = ''React''\<rparr>]"
    by auto
  have h8: "edit_items plain_env [\<lparr>i_line = 3, i_var = ''React''\<rparr>, \<lparr>i_line = 1, i_var = ''Foo''\<rparr>]
       \<lparr>lines = readlines (content (text_file (''import { Foo, Bar } from 'baz';'' @ [LF] @ ''let x = 1;'' @ [LF] @ ''import React from 'react';'' @ [LF]))), modified = False, fixed_count = fixed \<lparr>disk = [''src/a.ts'' \<mapsto> text_file (''import { Foo, Bar } from 'baz';'' @ [LF] @ ''let x = 1;'' @ [LF] @ ''import React from 'react';'' @ [LF])], fixed = 0, printed = [], written = []\<rparr>\<rparr>
     = (\<lparr>lines = [''import { Bar } from 'baz';'' @ [LF], ''let x = 1;'' @ [LF], []], modified = True, fixed_count = 2\<rparr>, None)"
    by code_simp
  have first: "edit_items plain_env [\<lparr>i_line = 3, i_var = ''React''\<rparr>]
       \<lparr>lines = readlines (content (text_file (''import { Foo, Bar } from 'baz';'' @ [LF] @ ''let x = 1;'' @ [LF] @ ''import React from 'react';'' @ [LF]))), modified = False, fixed_count = fixed \<lparr>disk = [''src/a.ts'' \<mapsto> text_file (''import { Foo, Bar } from 'baz';'' @ [LF] @ ''let x = 1;'' @ [LF] @ ''import React from 'react';'' @ [LF])], fixed = 0, printed = [], written = []\<rparr>\<rparr>
     = (\<lparr>lines = [''import { Foo, Bar } from 'baz';'' @ [LF], ''let x = 1;'' @ [LF], []], modified = True, fixed_count = 1\<rparr>, None)"
    by code_simp
  have h9: "mset [\<lparr>i_line = 3, i_var = ''React''\<rparr>, \<lparr>i_line = 1, i_var = ''Foo''\<rparr>] = mset [\<lparr>i_line = 1, i_var = ''Foo''\<rparr>, \<lparr>i_line = 3, i_var = ''React''\<rparr>] \<and> distinct (map i_line [\<lparr>i_line = 1, i_var = ''Foo''\<rparr>, \<lparr>i_line = 3, i_var = ''React''\<rparr>])"
    by simp
  have h10: "list_all (\<lambda>d. i_line \<lparr>i_line = 1, i_var = ''Foo''\<rparr> < i_line d) [\<lparr>i_line = 3, i_var = ''React''\<rparr>] \<and> 1 \<le> i_line \<lparr>i_line = 1, i_var = ''Foo''\<rparr> \<and>
      slot (lines \<lparr>lines = readlines (content (text_file (''import { Foo, Bar } from 'baz';'' @ [LF] @ ''let x = 1;'' @ [LF] @ ''import React from 'react';'' @ [LF]))), modified = False, fixed_count = fixed \<lparr>disk = [''src/a.ts'' \<mapsto> text_file (''import { Foo, Bar } from 'baz';'' @ [LF] @ ''let x = 1;'' @ [LF] @ ''import React from 'react';'' @ [LF])], fixed = 0, printed = [], written = []\<rparr>\<rparr>) (line_idx \<lparr>i_line = 1, i_var = ''Foo''\<rparr>) = Some 0"
    by (simp add: slot_def line_idx_def readlines_def text_file_def)
  note t = entries_processed_in_descending_order [OF h1 h2 h3 h4 h5 h6 h7 h8,
      where es' = "[\<lparr>i_line = 3, i_var = ''React''\<rparr>, \<lparr>i_line = 1, i_var = ''Foo''\<rparr>]" and xs = "[\<lparr>i_line = 3, i_var = ''React''\<rparr>]" and zs = "[\<lparr>i_line = 1, i_var = ''Foo''\<rparr>]"
        and s = "\<lparr>lines = readlines (content (text_file (''import { Foo, Bar } from 'baz';'' @ [LF] @ ''let x = 1;'' @ [LF] @ ''import React from 'react';'' @ [LF]))), modified = False, fixed_count = fixed \<lparr>disk = [''src/a.ts'' \<mapsto> text_file (''import { Foo, Bar } from 'baz';'' @ [LF] @ ''let x = 1;'' @ [LF] @ ''import React from 'react';'' @ [LF])], fixed = 0, printed = [], written = []\<rparr>\<rparr>" and s' = "\<lparr>lines = [''import { Foo, Bar } from 'baz';'' @ [LF], ''let x = 1;'' @ [LF], []], modified = True, fixed_count = 1\<rparr>" and x = None and i = 0 and k = 0 and it = "\<lparr>i_line = 1, i_var = ''Foo''\<rparr>"]
  have a: "fix_unused_imports plain_env
     [\<lparr>e_file = ''src/a.ts'', e_line = 1, e_col = 10, e_code = ''TS6133'', e_message = unused ''Foo''\<rparr>,
      \<lparr>e_file = ''src/a.ts'', e_line = 3, e_col = 8, e_code = ''TS6133'', e_message = unused ''React''\<rparr>]
     [''src/a.ts'' \<mapsto> text_file (''import { Foo, Bar } from 'baz';'' @ [LF] @ ''let x = 1;'' @ [LF] @ ''import React from 'react';'' @ [LF])]
   = \<lparr>disk = [''src/a.ts'' \<mapsto> text_file (''import { Bar } from 'baz';'' @ [LF] @ ''let x = 1;'' @ [LF])],
      fixed = 2, printed = [], written = [''src/a.ts'']\<rparr>"
    using t [THEN conjunct1] by (simp add: res text_file_def)
  have b: "sort_items [\<lparr>i_line = 1, i_var = ''Foo''\<rparr>, \<lparr>i_line = 3, i_var = ''React''\<rparr>] = [\<lparr>i_line = 3, i_var = ''React''\<rparr>, \<lparr>i_line = 1, i_var = ''Foo''\<rparr>]"
    using t [THEN conjunct2, THEN conjunct1] .
  have c: "fix_file plain_env \<lparr>disk = [''src/a.ts'' \<mapsto> text_file (''import { Foo, Bar } from 'baz';'' @ [LF] @ ''let x = 1;'' @ [LF] @ ''import React from 'react';'' @ [LF])], fixed = 0, printed = [], written = []\<rparr> (''src/a.ts'', [\<lparr>i_line = 3, i_var = ''React''\<rparr>, \<lparr>i_line = 1, i_var = ''Foo''\<rparr>])
     = fix_file plain_env \<lparr>disk = [''src/a.ts'' \<mapsto> text_file (''import { Foo, Bar } from 'baz';'' @ [LF] @ ''let x = 1;'' @ [LF] @ ''import React from 'react';'' @ [LF])], fixed = 0, printed = [], written = []\<rparr> (''src/a.ts'', [\<lparr>i_line = 1, i_var = ''Foo''\<rparr>, \<lparr>i_line = 3, i_var = ''React''\<rparr>])"
    using t [THEN conjunct2, THEN conjunct2, THEN conjunct1] h9 by blast
  have d: "slot (lines \<lparr>lines = [''import { Foo, Bar } from 'baz';'' @ [LF], ''let x = 1;'' @ [LF], []], modified = True, fixed_count = 1\<rparr>) (line_idx \<lparr>i_line = 1, i_var = ''Foo''\<rparr>) = Some 0 \<and>
      lines \<lparr>lines = [''import { Foo, Bar } from 'baz';'' @ [LF], ''let x = 1;'' @ [LF], []], modified = True, fixed_count = 1\<rparr> ! 0 = lines \<lparr>lines = readlines (content (text_file (''import { Foo, Bar } from 'baz';'' @ [LF] @ ''let x = 1;'' @ [LF] @ ''import React from 'react';'' @ [LF]))), modified = False, fixed_count = fixed \<lparr>disk = [''src/a.ts'' \<mapsto> text_file (''import { Foo, Bar } from 'baz';'' @ [LF] @ ''let x = 1;'' @ [LF] @ ''import React from 'react';'' @ [LF])], fixed = 0, printed = [], written = []\<rparr>\<rparr> ! 0"
    using t [THEN conjunct2, THEN conjunct2, THEN conjunct2, THEN conjunct2] first h10 by blast
  have e: "lines \<lparr>lines = readlines (content (text_file (''import { Foo, Bar } from 'baz';'' @ [LF] @ ''let x = 1;'' @ [LF] @ ''import React from 'react';'' @ [LF]))), modified = False, fixed_count = fixed \<lparr>disk = [''src/a.ts'' \<mapsto> text_file (''import { Foo, Bar } from 'baz';'' @ [LF] @ ''let x = 1;'' @ [LF] @ ''import React from 'react';'' @ [LF])], fixed = 0, printed = [], written = []\<rparr>\<rparr> ! 0 = ''import { Foo, Bar } from 'baz';'' @ [LF]"
    by (simp add: readlines_def text_file_def)
  have d1: "slot [''import { Foo, Bar } from 'baz';'' @ [LF], ''let x = 1;'' @ [LF], []] (line_idx \<lparr>i_line = 1, i_var = ''Foo''\<rparr>) = Some 0"
    using d by (simp add: readlines_def text_file_def)
  have d2: "[''import { Foo, Bar } from 'baz';'' @ [LF], ''let x = 1;'' @ [LF], []] ! 0 = ''import { Foo, Bar } from 'baz';'' @ [LF]"
    using d e by (simp add: readlines_def text_file_def)
  show ?thesis
    by (intro conjI) (rule a, rule b, rule c, rule d1, rule d2)
qed

subsection \<open>Exceptions in one file\<close>

text \<open>
  Claim C9. Take a run in which the turn of the file \<open>p\<close> comes, the file exists, and
  an exception \<open>e\<close> is raised for it: on reading it; or by an entry of the edit loop,
  after the entries before it went through; or on writing it back after the loop
  changed the buffer. Let \<open>c\<close> be the count at that moment (the count before the file
  in the first case, the count the loop had reached in the others). Then the run
  is the run over the remaining files from the state before the file with the count
  \<open>c\<close> and one more printed line, \<open>Error fixing <path>: <e>\<close>, which contains the
  path; the disk is as before the file; and the count the run returns is at least
  \<open>c\<close>, which is at least the count before the file.
\<close>

theorem exception_in_one_file_is_caught:
  assumes "files_to_fix errors = gs1 @ (p, es) # gs2"
    and "r = foldl (fix_file env) \<lparr>disk = d, fixed = 0, printed = [], written = []\<rparr> gs1"
    and "disk r (resolve env p) = Some nd"
    and "(read_error nd = Some e \<and> c = fixed r) \<or>
         (read_error nd = None \<and> sort_items es = earlier @ it # later \<and>
          edit_items env earlier
            \<lparr>lines = readlines (content nd), modified = False, fixed_count = fixed r\<rparr> = (st, None) \<and>
          edit_item env it st = Inl e \<and> c = fixed_count st) \<or>
         (read_error nd = None \<and>
          edit_items env (sort_items es)
            \<lparr>lines = readlines (content nd), modified = False, fixed_count = fixed r\<rparr> = (st, None) \<and>
          modified st \<and> write_error nd = Some e \<and> c = fixed_count st)"
  shows "fix_unused_imports env errors d =
           foldl (fix_file env) (r\<lparr>fixed := c, printed := printed r @ [error_fixing p e]\<rparr>) gs2 \<and>
         sublist p (error_fixing p e) \<and>
         fixed r \<le> c \<and>
         c \<le> fixed (fix_unused_imports env errors d)"
proof -
  have run: "fix_unused_imports env errors d = foldl (fix_file env) (fix_file env r (p, es)) gs2"
    unfolding assms(2) using assms(1) by (rule run_split)
  have round: "fix_file env r (p, es) = r\<lparr>fixed := c, printed := printed r @ [error_fixing p e]\<rparr>
      \<and> fixed r \<le> c"
    using assms(4)
  proof (elim disjE conjE)
    assume "read_error nd = Some e" "c = fixed r"
    then show ?thesis
      using assms(3) by (simp add: fix_file_def process_file_read_error)
  next
    assume re: "read_error nd = None" and split: "sort_items es = earlier @ it # later"
      and before: "edit_items env earlier
            \<lparr>lines = readlines (content nd), modified = False, fixed_count = fixed r\<rparr> = (st, None)"
      and raised: "edit_item env it st = Inl e" and c: "c = fixed_count st"
    have "edit_items env (sort_items es)
            \<lparr>lines = readlines (content nd), modified = False, fixed_count = fixed r\<rparr> = (st, Some e)"
      unfolding split edit_items_append before using raised by simp
    from fix_file_result [OF assms(3) re this] edit_items_count [OF before] c
    show ?thesis by simp
  next
    assume re: "read_error nd = None"
      and pass: "edit_items env (sort_items es)
            \<lparr>lines = readlines (content nd), modified = False, fixed_count = fixed r\<rparr> = (st, None)"
      and w: "modified st" "write_error nd = Some e" and c: "c = fixed_count st"
    from fix_file_result [OF assms(3) re pass] edit_items_count [OF pass] w c
    show ?thesis by simp
  qed
  have "c = fixed (r\<lparr>fixed := c, printed := printed r @ [error_fixing p e]\<rparr>)"
    by simp
  also have "\<dots> \<le> fixed (foldl (fix_file env)
      (r\<lparr>fixed := c, printed := printed r @ [error_fixing p e]\<rparr>) gs2)"
    by (rule foldl_fix_file_fixed_mono)
  finally have total: "c \<le> fixed (fix_unused_imports env errors d)"
    using run round by simp
  show ?thesis
    using run round total sublist_error_fixing [of p e] by simp
qed

theorem exception_in_one_file_is_caught_witness:
  "fixed (fix_unused_imports plain_env
      [\<lparr>e_file = ''src/a.ts'', e_line = 1, e_col = 10, e_code = ''TS6133'', e_message = unused ''Foo''\<rparr>,
      \<lparr>e_file = ''src/b.ts'', e_line = 1, e_col = 10, e_code = ''TS6133'', e_message = unused ''React''\<rparr>]
      [''src/a.ts'' \<mapsto> unreadable_file (''import { Foo, Bar } from 'baz';'' @ [LF]), ''src/b.ts'' \<mapsto> text_file (''import React from 'react';'' @ [LF])]) = 1 \<and>
   printed (fix_unused_imports plain_env
      [\<lparr>e_file = ''src/a.ts'', e_line = 1, e_col = 10, e_code = ''TS6133'', e_message = unused ''Foo''\<rparr>,
      \<lparr>e_file = ''src/b.ts'', e_line = 1, e_col = 10, e_code = ''TS6133'', e_message = unused ''React''\<rparr>]
      [''src/a.ts'' \<mapsto> unreadable_file (''import { Foo, Bar } from 'baz';'' @ [LF]), ''src/b.ts'' \<mapsto> text_file (''import React from 'react';'' @ [LF])]) = [''Error fixing src/a.ts: [Errno 13] Permission denied''] \<and>
   written (fix_unused_imports plain_env
      [\<lparr>e_file = ''src/a.ts'', e_line = 1, e_col = 10, e_code = ''TS6133'', e_message = unused ''Foo''\<rparr>,
      \<lparr>e_file = ''src/b.ts'', e_line = 1, e_col = 10, e_code = ''TS6133'', e_message = unused ''React''\<rparr>]
      [''src/a.ts'' \<mapsto> unreadable_file (''import { Foo, Bar } from 'baz';'' @ [LF]), ''src/b.ts'' \<mapsto> text_file (''import React from 'react';'' @ [LF])]) = [''src/b.ts''] \<and>
   fixed (fix_unused_imports plain_env
      [\<lparr>e_file = ''src/a.ts'', e_line = 1, e_col = 10, e_code = ''TS6133'', e_message = unused ''A''\<rparr>,
      \<lparr>e_file = ''src/a.ts'', e_line = 2, e_col = 10, e_code = ''TS6133'', e_message = unused ''X''\<rparr>,
      \<lparr>e_file = ''src/b.ts'', e_line = 1, e_col = 10, e_code = ''TS6133'', e_message = unused ''React''\<rparr>]
      [''src/a.ts'' \<mapsto> text_file (''import { A, '' @ [backslash] @ ''1 } from './m';'' @ [LF] @ ''import { X, Y } from './n';'' @ [LF]), ''src/b.ts'' \<mapsto> text_file (''import React from 'react';'' @ [LF])]) = 2 \<and>
   printed (fix_unused_imports plain_env
      [\<lparr>e_file = ''src/a.ts'', e_line = 1, e_col = 10, e_code = ''TS6133'', e_message = unused ''A''\<rparr>,
      \<lparr>e_file = ''src/a.ts'', e_line = 2, e_col = 10, e_code = ''TS6133'', e_message = unused ''X''\<rparr>,
      \<lparr>e_file = ''src/b.ts'', e_line = 1, e_col = 10, e_code = ''TS6133'', e_message = unused ''React''\<rparr>]
      [''src/a.ts'' \<mapsto> text_file (''import { A, '' @ [backslash] @ ''1 } from './m';'' @ [LF] @ ''import { X, Y } from './n';'' @ [LF]), ''src/b.ts'' \<mapsto> text_file (''import React from 'react';'' @ [LF])]) = [''Error fixing src/a.ts: invalid group reference 1 at position 3''] \<and>
   written (fix_unused_imports plain_env
      [\<lparr>e_file = ''src/a.ts'', e_line = 1, e_col = 10, e_code = ''TS6133'', e_message = unused ''A''\<rparr>,
      \<lparr>e_file = ''src/a.ts'', e_line = 2, e_col = 10, e_code = ''TS6133'', e_message = unused ''X''\<rparr>,
      \<lparr>e_file = ''src/b.ts'', e_line = 1, e_col = 10, e_code = ''TS6133'', e_message = unused ''React''\<rparr>]
      [''src/a.ts'' \<mapsto> text_file (''import { A, '' @ [backslash] @ ''1 } from './m';'' @ [LF] @ ''import { X, Y } from './n';'' @ [LF]), ''src/b.ts'' \<mapsto> text_file (''import React from 'react';'' @ [LF])]) = [''src/b.ts''] \<and>
   fixed (fix_unused_imports plain_env
      [\<lparr>e_file = ''src/a.ts'', e_line = 1, e_col = 10, e_code = ''TS6133'', e_message = unused ''Foo''\<rparr>,
      \<lparr>e_file = ''src/b.ts'', e_line = 1, e_col = 10, e_code = ''TS6133'', e_message = unused ''React''\<rparr>]
      [''src/a.ts'' \<mapsto> read_only_file (''import { Foo, Bar } from 'baz';'' @ [LF]), ''src/b.ts'' \<mapsto> text_file (''import React from 'react';'' @ [LF])]) = 2 \<and>
   printed (fix_unused_imports plain_env
      [\<lparr>e_file = ''src/a.ts'', e_line = 1, e_col = 10, e_code = ''TS6133'', e_message = unused ''Foo''\<rparr>,
      \<lparr>e_file = ''src/b.ts'', e_line = 1, e_col = 10, e_code = ''TS6133'', e_message = unused ''React''\<rparr>]
      [''src/a.ts'' \<mapsto> read_only_file (''import { Foo, Bar } from 'baz';'' @ [LF]), ''src/b.ts'' \<mapsto> text_file (''import React from 'react';'' @ [LF])]) = [''Error fixing src/a.ts: [Errno 13] Permission denied''] \<and>
   written (fix_unused_imports plain_env
      [\<lparr>e_file = ''src/a.ts'', e_line = 1, e_col = 10, e_code = ''TS6133'', e_message = unused ''Foo''\<rparr>,
      \<lparr>e_file = ''src/b.ts'', e_line = 1, e_col = 10, e_code = ''TS6133'', e_message = unused ''React''\<rparr>]
      [''src/a.ts'' \<mapsto> read_only_file (''import { Foo, Bar } from 'baz';'' @ [LF]), ''src/b.ts'' \<mapsto> text_file (''import React from 'react';'' @ [LF])]) = [''src/b.ts'']"
proof -
  have res: "resolve plain_env p = p" for p
    by (simp add: plain_env_def)
  have g1: "files_to_fix
      [\<lparr>e_file = ''src/a.ts'', e_line = 1, e_col = 10, e_code = ''TS6133'', e_message = unused ''Foo''\<rparr>,
      \<lparr>e_file = ''src/b.ts'', e_line = 1, e_col = 10, e_code = ''TS6133'', e_message = unused ''React''\<rparr>]
    = [] @ (''src/a.ts'', [\<lparr>i_line = 1, i_var = ''Foo''\<rparr>]) # [(''src/b.ts'', [\<lparr>i_line = 1, i_var = ''React''\<rparr>])]"
    by code_simp
  have r1: "\<lparr>disk = [''src/a.ts'' \<mapsto> unreadable_file (''import { Foo, Bar } from 'baz';'' @ [LF]), ''src/b.ts'' \<mapsto> text_file (''import React from 'react';'' @ [LF])], fixed = 0, printed = [], written = []\<rparr>
    = foldl (fix_file plain_env) \<lparr>disk = [''src/a.ts'' \<mapsto> unreadable_file (''import { Foo, Bar } from 'baz';'' @ [LF]), ''src/b.ts'' \<mapsto> text_file (''import React from 'react';'' @ [LF])], fixed = 0, printed = [], written = []\<rparr> []"
    by simp
  have d1: "disk \<lparr>disk = [''src/a.ts'' \<mapsto> unreadable_file (''import { Foo, Bar } from 'baz';'' @ [LF]), ''src/b.ts'' \<mapsto> text_file (''import React from 'react';'' @ [LF])], fixed = 0, printed = [], written = []\<rparr> (resolve plain_env ''src/a.ts'') = Some (unreadable_file (''import { Foo, Bar } from 'baz';'' @ [LF]))"
    by (simp add: res)
  have c1: "read_error (unreadable_file (''import { Foo, Bar } from 'baz';'' @ [LF])) = Some (Raised ''[Errno 13] Permission denied'') \<and> (0::nat) = fixed \<lparr>disk = [''src/a.ts'' \<mapsto> unreadable_file (''import { Foo, Bar } from 'baz';'' @ [LF]), ''src/b.ts'' \<mapsto> text_file (''import React from 'react';'' @ [LF])], fixed = 0, printed = [], written = []\<rparr>"
    by (simp add: unreadable_file_def)
  have b1: "edit_items plain_env (sort_items [\<lparr>i_line = 1, i_var = ''React''\<rparr>])
       \<lparr>lines = readlines (content (text_file (''import React from 'react';'' @ [LF]))), modified = False,
        fixed_count = fixed \<lparr>disk = [''src/a.ts'' \<mapsto> unreadable_file (''import { Foo, Bar } from 'baz';'' @ [LF]), ''src/b.ts'' \<mapsto> text_file (''import React from 'react';'' @ [LF])], fixed = 0, printed = [''Error fixing src/a.ts: [Errno 13] Permission denied''], written = []\<rparr>\<rparr>
     = (\<lparr>lines = [[]], modified = True, fixed_count = 1\<rparr>, None)"
    by code_simp
  have l1: "fix_file plain_env \<lparr>disk = [''src/a.ts'' \<mapsto> unreadable_file (''import { Foo, Bar } from 'baz';'' @ [LF]), ''src/b.ts'' \<mapsto> text_file (''import React from 'react';'' @ [LF])], fixed = 0, printed = [''Error fixing src/a.ts: [Errno 13] Permission denied''], written = []\<rparr> (''src/b.ts'', [\<lparr>i_line = 1, i_var = ''React''\<rparr>])
     = \<lparr>disk = [''src/a.ts'' \<mapsto> unreadable_file (''import { Foo, Bar } from 'baz';'' @ [LF]), ''src/b.ts'' \<mapsto> text_file (''import React from 'react';'' @ [LF])](''src/b.ts'' \<mapsto> text_file []), fixed = 1, printed = [''Error fixing src/a.ts: [Errno 13] Permission denied''], written = [''src/b.ts'']\<rparr>"
    using fix_file_result [where env = plain_env and p = "''src/b.ts''", OF _ _ b1]
    by (simp add: res text_file_def)
  have t1: "fix_unused_imports plain_env
      [\<lparr>e_file = ''src/a.ts'', e_line = 1, e_col = 10, e_code = ''TS6133'', e_message = unused ''Foo''\<rparr>,
      \<lparr>e_file = ''src/b.ts'', e_line = 1, e_col = 10, e_code = ''TS6133'', e_message = unused ''React''\<rparr>]
      [''src/a.ts'' \<mapsto> unreadable_file (''import { Foo, Bar } from 'baz';'' @ [LF]), ''src/b.ts'' \<mapsto> text_file (''import React from 'react';'' @ [LF])]
    = foldl (fix_file plain_env)
        (\<lparr>disk = [''src/a.ts'' \<mapsto> unreadable_file (''import { Foo, Bar } from 'baz';'' @ [LF]), ''src/b.ts'' \<mapsto> text_file (''import React from 'react';'' @ [LF])], fixed = 0, printed = [], written = []\<rparr>\<lparr>fixed := 0, printed := printed \<lparr>disk = [''src/a.ts'' \<mapsto> unreadable_file (''import { Foo, Bar } from 'baz';'' @ [LF]), ''src/b.ts'' \<mapsto> text_file (''import React from 'react';'' @ [LF])], fixed = 0, printed = [], written = []\<rparr> @ [error_fixing ''src/a.ts'' (Raised ''[Errno 13] Permission denied'')]\<rparr>)
        [(''src/b.ts'', [\<lparr>i_line = 1, i_var = ''React''\<rparr>])]"
    using exception_in_one_file_is_caught [where c = 0 and e = "Raised ''[Errno 13] Permission denied''", OF g1 r1 d1]
      c1
    by blast
  have f1: "fix_unused_imports plain_env
      [\<lparr>e_file = ''src/a.ts'', e_line = 1, e_col = 10, e_code = ''TS6133'', e_message = unused ''Foo''\<rparr>,
      \<lparr>e_file = ''src/b.ts'', e_line = 1, e_col = 10, e_code = ''TS6133'', e_message = unused ''React''\<rparr>]
      [''src/a.ts'' \<mapsto> unreadable_file (''import { Foo, Bar } from 'baz';'' @ [LF]), ''src/b.ts'' \<mapsto> text_file (''import React from 'react';'' @ [LF])]
    = \<lparr>disk = [''src/a.ts'' \<mapsto> unreadable_file (''import { Foo, Bar } from 'baz';'' @ [LF]), ''src/b.ts'' \<mapsto> text_file (''import React from 'react';'' @ [LF])](''src/b.ts'' \<mapsto> text_file []), fixed = 1, printed = [''Error fixing src/a.ts: [Errno 13] Permission denied''], written = [''src/b.ts'']\<rparr>"
    unfolding t1 using l1 by (simp add: error_fixing_def exn_str_def)
  have g2: "files_to_fix
      [\<lparr>e_file = ''src/a.ts'', e_line = 1, e_col = 10, e_code = ''TS6133'', e_message = unused ''A''\<rparr>,
      \<lparr>e_file = ''src/a.ts'', e_line = 2, e_col = 10, e_code = ''TS6133'', e_message = unused ''X''\<rparr>,
      \<lparr>e_file = ''src/b.ts'', e_line = 1, e_col = 10, e_code = ''TS6133'', e_message = unused ''React''\<rparr>]
    = [] @ (''src/a.ts'', [\<lparr>i_line = 1, i_var = ''A''\<rparr>, \<lparr>i_line = 2, i_var = ''X''\<rparr>]) # [(''src/b.ts'', [\<lparr>i_line = 1, i_var = ''React''\<rparr>])]"
    by code_simp
  have r2: "\<lparr>disk = [''src/a.ts'' \<mapsto> text_file (''import { A, '' @ [backslash] @ ''1 } from './m';'' @ [LF] @ ''import { X, Y } from './n';'' @ [LF]), ''src/b.ts'' \<mapsto> text_file (''import React from 'react';'' @ [LF])], fixed = 0, printed = [], written = []\<rparr>
    = foldl (fix_file plain_env) \<lparr>disk = [''src/a.ts'' \<mapsto> text_file (''import { A, '' @ [backslash] @ ''1 } from './m';'' @ [LF] @ ''import { X, Y } from './n';'' @ [LF]), ''src/b.ts'' \<mapsto> text_file (''import React from 'react';'' @ [LF])], fixed = 0, printed = [], written = []\<rparr> []"
    by simp
  have d2: "disk \<lparr>disk = [''src/a.ts'' \<mapsto> text_file (''import { A, '' @ [backslash] @ ''1 } from './m';'' @ [LF] @ ''import { X, Y } from './n';'' @ [LF]), ''src/b.ts'' \<mapsto> text_file (''import React from 'react';'' @ [LF])], fixed = 0, printed = [], written = []\<rparr> (resolve plain_env ''src/a.ts'') = Some (text_file (''import { A, '' @ [backslash] @ ''1 } from './m';'' @ [LF] @ ''import { X, Y } from './n';'' @ [LF]))"
    by (simp add: res)
  have c2a: "sort_items [\<lparr>i_line = 1, i_var = ''A''\<rparr>, \<lparr>i_line = 2, i_var = ''X''\<rparr>] = [\<lparr>i_line = 2, i_var = ''X''\<rparr>] @ \<lparr>i_line = 1, i_var = ''A''\<rparr> # []"
    by code_simp
  have c2b: "edit_items plain_env [\<lparr>i_line = 2, i_var = ''X''\<rparr>]
       \<lparr>lines = readlines (content (text_file (''import { A, '' @ [backslash] @ ''1 } from './m';'' @ [LF] @ ''import { X, Y } from './n';'' @ [LF]))), modified = False, fixed_count = fixed \<lparr>disk = [''src/a.ts'' \<mapsto> text_file (''import { A, '' @ [backslash] @ ''1 } from './m';'' @ [LF] @ ''import { X, Y } from './n';'' @ [LF]), ''src/b.ts'' \<mapsto> text_file (''import React from 'react';'' @ [LF])], fixed = 0, printed = [], written = []\<rparr>\<rparr>
     = (\<lparr>lines = [''import { A, '' @ [backslash] @ ''1 } from './m';'' @ [LF], ''import { Y } from './n';'' @ [LF]], modified = True, fixed_count = 1\<rparr>, None)"
    by code_simp
  have c2c: "edit_item plain_env \<lparr>i_line = 1, i_var = ''A''\<rparr>
       \<lparr>lines = [''import { A, '' @ [backslash] @ ''1 } from './m';'' @ [LF], ''import { Y } from './n';'' @ [LF]], modified = True, fixed_count = 1\<rparr>
     = Inl (Raised ''invalid group reference 1 at position 3'')"
    by code_simp
  have c2: "read_error (text_file (''import { A, '' @ [backslash] @ ''1 } from './m';'' @ [LF] @ ''import { X, Y } from './n';'' @ [LF])) = None \<and>
      sort_items [\<lparr>i_line = 1, i_var = ''A''\<rparr>, \<lparr>i_line = 2, i_var = ''X''\<rparr>] = [\<lparr>i_line = 2, i_var = ''X''\<rparr>] @ \<lparr>i_line = 1, i_var = ''A''\<rparr> # [] \<and>
      edit_items plain_env [\<lparr>i_line = 2, i_var = ''X''\<rparr>]
       \<lparr>lines = readlines (content (text_file (''import { A, '' @ [backslash] @ ''1 } from './m';'' @ [LF] @ ''import { X, Y } from './n';'' @ [LF]))), modified = False, fixed_count = fixed \<lparr>disk = [''src/a.ts'' \<mapsto> text_file (''import { A, '' @ [backslash] @ ''1 } from './m';'' @ [LF] @ ''import { X, Y } from './n';'' @ [LF]), ''src/b.ts'' \<mapsto> text_file (''import React from 'react';'' @ [LF])], fixed = 0, printed = [], written = []\<rparr>\<rparr>
     = (\<lparr>lines = [''import { A, '' @ [backslash] @ ''1 } from './m';'' @ [LF], ''import { Y } from './n';'' @ [LF]], modified = True, fixed_count = 1\<rparr>, None) \<and>
      edit_item plain_env \<lparr>i_line = 1, i_var = ''A''\<rparr>
       \<lparr>lines = [''import { A, '' @ [backslash] @ ''1 } from './m';'' @ [LF], ''import { Y } from './n';'' @ [LF]], modified = True, fixed_count = 1\<rparr>
     = Inl (Raised ''invalid group reference 1 at position 3'') \<and>
      (1::nat) = fixed_count \<lparr>lines = [''import { A, '' @ [backslash] @ ''1 } from './m';'' @ [LF], ''import { Y } from './n';'' @ [LF]], modified = True, fixed_count = 1\<rparr>"
    using c2a c2b c2c by (simp add: text_file_def)
  have b2: "edit_items plain_env (sort_items [\<lparr>i_line = 1, i_var = ''React''\<rparr>])
       \<lparr>lines = readlines (content (text_file (''import React from 'react';'' @ [LF]))), modified = False,
        fixed_count = fixed \<lparr>disk = [''src/a.ts'' \<mapsto> text_file (''import { A, '' @ [backslash] @ ''1 } from './m';'' @ [LF] @ ''import { X, Y } from './n';'' @ [LF]), ''src/b.ts'' \<mapsto> text_file (''import React from 'react';'' @ [LF])], fixed = 1, printed = [''Error fixing src/a.ts: invalid group reference 1 at position 3''], written = []\<rparr>\<rparr>
     = (\<lparr>lines = [[]], modified = True, fixed_count = 2\<rparr>, None)"
    by code_simp
  have l2: "fix_file plain_env \<lparr>disk = [''src/a.ts'' \<mapsto> text_file (''import { A, '' @ [backslash] @ ''1 } from './m';'' @ [LF] @ ''import { X, Y } from './n';'' @ [LF]), ''src/b.ts'' \<mapsto> text_file (''import React from 'react';'' @ [LF])], fixed = 1, printed = [''Error fixing src/a.ts: invalid group reference 1 at position 3''], written = []\<rparr> (''src/b.ts'', [\<lparr>i_line = 1, i_var = ''React''\<rparr>])
     = \<lparr>disk = [''src/a.ts'' \<mapsto> text_file (''import { A, '' @ [backslash] @ ''1 } from './m';'' @ [LF] @ ''import { X, Y } from './n';'' @ [LF]), ''src/b.ts'' \<mapsto> text_file (''import React from 'react';'' @ [LF])](''src/b.ts'' \<mapsto> text_file []), fixed = 2, printed = [''Error fixing src/a.ts: invalid group reference 1 at position 3''], written = [''src/b.ts'']\<rparr>"
    using fix_file_result [where env = plain_env and p = "''src/b.ts''", OF _ _ b2]
    by (simp add: res text_file_def)
  have t2: "fix_unused_imports plain_env
      [\<lparr>e_file = ''src/a.ts'', e_line = 1, e_col = 10, e_code = ''TS6133'', e_message = unused ''A''\<rparr>,
      \<lparr>e_file = ''src/a.ts'', e_line = 2, e_col = 10, e_code = ''TS6133'', e_message = unused ''X''\<rparr>,
      \<lparr>e_file = ''src/b.ts'', e_line = 1, e_col = 10, e_code = ''TS6133'', e_message = unused ''React''\<rparr>]
      [''src/a.ts'' \<mapsto> text_file (''import { A, '' @ [backslash] @ ''1 } from './m';'' @ [LF] @ ''import { X, Y } from './n';'' @ [LF]), ''src/b.ts'' \<mapsto> text_file (''import React from 'react';'' @ [LF])]
    = foldl (fix_file plain_env)
        (\<lparr>disk = [''src/a.ts'' \<mapsto> text_file (''import { A, '' @ [backslash] @ ''1 } from './m';'' @ [LF] @ ''import { X, Y } from './n';'' @ [LF]), ''src/b.ts'' \<mapsto> text_file (''import React from 'react';'' @ [LF])], fixed = 0, printed = [], written = []\<rparr>\<lparr>fixed := 1, printed := printed \<lparr>disk = [''src/a.ts'' \<mapsto> text_file (''import { A, '' @ [backslash] @ ''1 } from './m';'' @ [LF] @ ''import { X, Y } from './n';'' @ [LF]), ''src/b.ts'' \<mapsto> text_file (''import React from 'react';'' @ [LF])], fixed = 0, printed = [], written = []\<rparr> @ [error_fixing ''src/a.ts'' (Raised ''invalid group reference 1 at position 3'')]\<rparr>)
        [(''src/b.ts'', [\<lparr>i_line = 1, i_var = ''React''\<rparr>])]"
    using exception_in_one_file_is_caught [where c = 1 and e = "Raised ''invalid group reference 1 at position 3''" and st = "\<lparr>lines = [''import { A, '' @ [backslash] @ ''1 } from './m';'' @ [LF], ''import { Y } from './n';'' @ [LF]], modified = True, fixed_count = 1\<rparr>"
        and earlier = "[\<lparr>i_line = 2, i_var = ''X''\<rparr>]" and it = "\<lparr>i_line = 1, i_var = ''A''\<rparr>" and later = "[]", OF g2 r2 d2]
      c2
    by blast
  have f2: "fix_unused_imports plain_env
      [\<lparr>e_file = ''src/a.ts'', e_line = 1, e_col = 10, e_code = ''TS6133'', e_message = unused ''A''\<rparr>,
      \<lparr>e_file = ''src/a.ts'', e_line = 2, e_col = 10, e_code = ''TS6133'', e_message = unused ''X''\<rparr>,
      \<lparr>e_file = ''src/b.ts'', e_line = 1, e_col = 10, e_code = ''TS6133'', e_message = unused ''React''\<rparr>]
      [''src/a.ts'' \<mapsto> text_file (''import { A, '' @ [backslash] @ ''1 } from './m';'' @ [LF] @ ''import { X, Y } from './n';'' @ [LF]), ''src/b.ts'' \<mapsto> text_file (''import React from 'react';'' @ [LF])]
    = \<lparr>disk = [''src/a.ts'' \<mapsto> text_file (''import { A, '' @ [backslash] @ ''1 } from './m';'' @ [LF] @ ''import { X, Y } from './n';'' @ [LF]), ''src/b.ts'' \<mapsto> text_file (''import React from 'react';'' @ [LF])](''src/b.ts'' \<mapsto> text_file []), fixed = 2, printed = [''Error fixing src/a.ts: invalid group reference 1 at position 3''], written = [''src/b.ts'']\<rparr>"
    unfolding t2 using l2 by (simp add: error_fixing_def exn_str_def)
  have g3: "files_to_fix
      [\<lparr>e_file = ''src/a.ts'', e_line = 1, e_col = 10, e_code = ''TS6133'', e_message = unused ''Foo''\<rparr>,
      \<lparr>e_file = ''src/b.ts'', e_line = 1, e_col = 10, e_code = ''TS6133'', e_message = unused ''React''\<rparr>]
    = [] @ (''src/a.ts'', [\<lparr>i_line = 1, i_var = ''Foo''\<rparr>]) # [(''src/b.ts'', [\<lparr>i_line = 1, i_var = ''React''\<rparr>])]"
    by code_simp
  have r3: "\<lparr>disk = [''src/a.ts'' \<mapsto> read_only_file (''import { Foo, Bar } from 'baz';'' @ [LF]), ''src/b.ts'' \<mapsto> text_file (''import React from 'react';'' @ [LF])], fixed = 0, printed = [], written = []\<rparr>
    = foldl (fix_file plain_env) \<lparr>disk = [''src/a.ts'' \<mapsto> read_only_file (''import { Foo, Bar } from 'baz';'' @ [LF]), ''src/b.ts'' \<mapsto> text_file (''import React from 'react';'' @ [LF])], fixed = 0, printed = [], written = []\<rparr> []"
    by simp
  have d3: "disk \<lparr>disk = [''src/a.ts'' \<mapsto> read_only_file (''import { Foo, Bar } from 'baz';'' @ [LF]), ''src/b.ts'' \<mapsto> text_file (''import React from 'react';'' @ [LF])], fixed = 0, printed = [], written = []\<rparr> (resolve plain_env ''src/a.ts'') = Some (read_only_file (''import { Foo, Bar } from 'baz';'' @ [LF]))"
    by (simp add: res)
  have c3a: "edit_items plain_env (sort_items [\<lparr>i_line = 1, i_var = ''Foo''\<rparr>])
       \<lparr>lines = readlines (content (read_only_file (''import { Foo, Bar } from 'baz';'' @ [LF]))), modified = False, fixed_count = fixed \<lparr>disk = [''src/a.ts'' \<mapsto> read_only_file (''import { Foo, Bar } from 'baz';'' @ [LF]), ''src/b.ts'' \<mapsto> text_file (''import React from 'react';'' @ [LF])], fixed = 0, printed = [], written = []\<rparr>\<rparr>
     = (\<lparr>lines = [''import { Bar } from 'baz';'' @ [LF]], modified = True, fixed_count = 1\<rparr>, None)"
    by code_simp
  have c3: "read_error (read_only_file (''import { Foo, Bar } from 'baz';'' @ [LF])) = None \<and>
      edit_items plain_env (sort_items [\<lparr>i_line = 1, i_var = ''Foo''\<rparr>])
       \<lparr>lines = readlines (content (read_only_file (''import { Foo, Bar } from 'baz';'' @ [LF]))), modified = False, fixed_count = fixed \<lparr>disk = [''src/a.ts'' \<mapsto> read_only_file (''import { Foo, Bar } from 'baz';'' @ [LF]), ''src/b.ts'' \<mapsto> text_file (''import React from 'react';'' @ [LF])], fixed = 0, printed = [], written = []\<rparr>\<rparr>
     = (\<lparr>lines = [''import { Bar } from 'baz';'' @ [LF]], modified = True, fixed_count = 1\<rparr>, None) \<and>
      modified \<lparr>lines = [''import { Bar } from 'baz';'' @ [LF]], modified = True, fixed_count = 1\<rparr> \<and>
      write_error (read_only_file (''import { Foo, Bar } from 'baz';'' @ [LF])) = Some (Raised ''[Errno 13] Permission denied'') \<and>
      (1::nat) = fixed_count \<lparr>lines = [''import { Bar } from 'baz';'' @ [LF]], modified = True, fixed_count = 1\<rparr>"
    using c3a by (simp add: read_only_file_def)
  have b3: "edit_items plain_env (sort_items [\<lparr>i_line = 1, i_var = ''React''\<rparr>])
       \<lparr>lines = readlines (content (text_file (''import React from 'react';'' @ [LF]))), modified = False,
        fixed_count = fixed \<lparr>disk = [''src/a.ts'' \<mapsto> read_only_file (''import { Foo, Bar } from 'baz';'' @ [LF]), ''src/b.ts'' \<mapsto> text_file (''import React from 'react';'' @ [LF])], fixed = 1, printed = [''Error fixing src/a.ts: [Errno 13] Permission denied''], written = []\<rparr>\<rparr>
     = (\<lparr>lines = [[]], modified = True, fixed_count = 2\<rparr>, None)"
    by code_simp
  have l3: "fix_file plain_env \<lparr>disk = [''src/a.ts'' \<mapsto> read_only_file (''import { Foo, Bar } from 'baz';'' @ [LF]), ''src/b.ts'' \<mapsto> text_file (''import React from 'react';'' @ [LF])], fixed = 1, printed = [''Error fixing src/a.ts: [Errno 13] Permission denied''], written = []\<rparr> (''src/b.ts'', [\<lparr>i_line = 1, i_var = ''React''\<rparr>])
     = \<lparr>disk = [''src/a.ts'' \<mapsto> read_only_file (''import { Foo, Bar } from 'baz';'' @ [LF]), ''src/b.ts'' \<mapsto> text_file (''import React from 'react';'' @ [LF])](''src/b.ts'' \<mapsto> text_file []), fixed = 2, printed = [''Error fixing src/a.ts: [Errno 13] Permission denied''], written = [''src/b.ts'']\<rparr>"
    using fix_file_result [where env = plain_env and p = "''src/b.ts''", OF _ _ b3]
    by (simp add: res text_file_def)
  have t3: "fix_unused_imports plain_env
      [\<lparr>e_file = ''src/a.ts'', e_line = 1, e_col = 10, e_code = ''TS6133'', e_message = unused ''Foo''\<rparr>,
      \<lparr>e_file = ''src/b.ts'', e_line = 1, e_col = 10, e_code = ''TS6133'', e_message = unused ''React''\<rparr>]
      [''src/a.ts'' \<mapsto> read_only_file (''import { Foo, Bar } from 'baz';'' @ [LF]), ''src/b.ts'' \<mapsto> text_file (''import React from 'react';'' @ [LF])]
    = foldl (fix_file plain_env)
        (\<lparr>disk = [''src/a.ts'' \<mapsto> read_only_file (''import { Foo, Bar } from 'baz';'' @ [LF]), ''src/b.ts'' \<mapsto> text_file (''import React from 'react';'' @ [LF])], fixed = 0, printed = [], written = []\<rparr>\<lparr>fixed := 1, printed := printed \<lparr>disk = [''src/a.ts'' \<mapsto> read_only_file (''import { Foo, Bar } from 'baz';'' @ [LF]), ''src/b.ts'' \<mapsto> text_file (''import React from 'react';'' @ [LF])], fixed = 0, printed = [], written = []\<rparr> @ [error_fixing ''src/a.ts'' (Raised ''[Errno 13] Permission denied'')]\<rparr>)
        [(''src/b.ts'', [\<lparr>i_line = 1, i_var = ''React''\<rparr>])]"
    using exception_in_one_file_is_caught [where c = 1 and e = "Raised ''[Errno 13] Permission denied''" and st = "\<lparr>lines = [''import { Bar } from 'baz';'' @ [LF]], modified = True, fixed_count = 1\<rparr>", OF g3 r3 d3]
      c3
    by blast
  have f3: "fix_unused_imports plain_env
      [\<lparr>e_file = ''src/a.ts'', e_line = 1, e_col = 10, e_code = ''TS6133'', e_message = unused ''Foo''\<rparr>,
      \<lparr>e_file = ''src/b.ts'', e_line = 1, e_col = 10, e_code = ''TS6133'', e_message = unused ''React''\<rparr>]
      [''src/a.ts'' \<mapsto> read_only_file (''import { Foo, Bar } from 'baz';'' @ [LF]), ''src/b.ts'' \<mapsto> text_file (''import React from 'react';'' @ [LF])]
    = \<lparr>disk = [''src/a.ts'' \<mapsto> read_only_file (''import { Foo, Bar } from 'baz';'' @ [LF]), ''src/b.ts'' \<mapsto> text_file (''import React from 'react';'' @ [LF])](''src/b.ts'' \<mapsto> text_file []), fixed = 2, printed = [''Error fixing src/a.ts: [Errno 13] Permission denied''], written = [''src/b.ts'']\<rparr>"
    unfolding t3 using l3 by (simp add: error_fixing_def exn_str_def)
  show ?thesis
    unfolding f1 f2 f3 by simp
qed

end
